theory Spec2Isabelle
  imports Main "HOL-Library.Word"
begin

section \<open>Authentication and session lifecycle of the Wyndo API\<close>

text \<open>
  A shallow embedding of the authentication core: the token service
  (\<^verbatim>\<open>services/tokenService.ts\<close>), the encryption utility (\<^verbatim>\<open>utils/encryption.ts\<close>),
  the bearer-token middleware (\<^verbatim>\<open>middleware/auth.ts\<close>), the auth service, and the two
  sets of handlers that exist side by side: the router of \<^verbatim>\<open>routes/auth.ts\<close> (the one
  mounted by \<^verbatim>\<open>index.ts\<close>) and the class \<^verbatim>\<open>AuthController\<close>.

  Conventions. The database is an explicit record of tables that every operation takes
  and returns. The clock (\<^verbatim>\<open>Date.now()\<close>, milliseconds) and every random draw
  (\<^verbatim>\<open>crypto.randomBytes\<close>, \<^verbatim>\<open>crypto.randomUUID\<close>, the key of a new row) are arguments.
  A thrown exception is the left summand of a sum. Libraries that are not part of the
  repository (jsonwebtoken, speakeasy, the AES-GCM and PBKDF2 primitives of Node, the
  password hasher) are described by their contract or taken as parameters.
\<close>

subsection \<open>Bytes, hexadecimal text, splitting\<close>

type_synonym bytes = "8 word list"

text \<open>Milliseconds since the epoch, as \<^verbatim>\<open>Date.now()\<close> gives them.\<close>
type_synonym time = int

definition hex_digit :: "nat \<Rightarrow> char" where
  "hex_digit n = ''0123456789abcdef'' ! (n mod 16)"

text \<open>\<^verbatim>\<open>buf.toString('hex')\<close>: two lower-case digits for each byte.\<close>
fun to_hex :: "bytes \<Rightarrow> string" where
  "to_hex [] = []"
| "to_hex (b # bs) = hex_digit (unat b div 16) # hex_digit (unat b mod 16) # to_hex bs"

definition hex_value :: "char \<Rightarrow> nat option" where
  "hex_value c =
     (let n = of_char c :: nat in
      if 48 \<le> n \<and> n \<le> 57 then Some (n - 48)
      else if 97 \<le> n \<and> n \<le> 102 then Some (n - 87)
      else if 65 \<le> n \<and> n \<le> 70 then Some (n - 55)
      else None)"

text \<open>
  \<^verbatim>\<open>Buffer.from(s, 'hex')\<close>: pairs of hexadecimal digits, either case; decoding stops
  at the first pair that is not hexadecimal, and a trailing single digit is dropped.
\<close>
fun from_hex :: "string \<Rightarrow> bytes" where
  "from_hex (a # b # rest) =
     (case hex_value a of
        None \<Rightarrow> []
      | Some x \<Rightarrow>
          (case hex_value b of
             None \<Rightarrow> []
           | Some y \<Rightarrow> of_nat (16 * x + y) # from_hex rest))"
| "from_hex _ = []"

definition is_hex_char :: "char \<Rightarrow> bool" where
  "is_hex_char c = (hex_value c \<noteq> None)"

text \<open>\<^verbatim>\<open>s.split(sep)\<close> for a separator of one character; the empty text gives one empty field.\<close>
fun split :: "char \<Rightarrow> string \<Rightarrow> string list" where
  "split sep [] = [[]]"
| "split sep (c # cs) =
     (if c = sep then [] # split sep cs
      else (case split sep cs of
              [] \<Rightarrow> [[c]]
            | p # ps \<Rightarrow> (c # p) # ps))"

definition toUpperCase_char :: "char \<Rightarrow> char" where
  "toUpperCase_char c =
     (let n = of_char c :: nat in if 97 \<le> n \<and> n \<le> 122 then char_of (n - 32) else c)"

definition toUpperCase :: "string \<Rightarrow> string" where
  "toUpperCase s = map toUpperCase_char s"

text \<open>The text is held as its UTF-8 bytes, so encoding and decoding relabel the bytes.\<close>
definition utf8_encode :: "string \<Rightarrow> bytes" where
  "utf8_encode s = map (\<lambda>c. of_nat (of_char c)) s"

definition utf8_decode :: "bytes \<Rightarrow> string" where
  "utf8_decode bs = map (\<lambda>b. char_of (unat b)) bs"

subsection \<open>Exceptions\<close>

datatype exn =
    JsonWebTokenError
  | TokenExpiredError
  | InvalidEncryptedDataFormat
  | AuthTagMismatch
  | UniqueConstraintViolation
  | InvalidArgValue

text \<open>In jsonwebtoken, \<^verbatim>\<open>TokenExpiredError\<close> is a subclass of \<^verbatim>\<open>JsonWebTokenError\<close>.\<close>
fun instanceof_JsonWebTokenError :: "exn \<Rightarrow> bool" where
  "instanceof_JsonWebTokenError JsonWebTokenError = True"
| "instanceof_JsonWebTokenError TokenExpiredError = True"
| "instanceof_JsonWebTokenError _ = False"

subsection \<open>JSON web tokens (the contract of jsonwebtoken)\<close>

record jwt_payload =
  jwt_userId :: string
  jwt_type :: string
  jwt_iat :: int
  jwt_exp :: "int option"

text \<open>
  A token is either a well-formed JWT, given by the secret its signature was made with
  and its payload, or any other text. Times inside a token are in seconds.
\<close>
datatype token = Signed string jwt_payload | Malformed string

definition jwt_sign :: "string \<Rightarrow> string \<Rightarrow> string \<Rightarrow> int \<Rightarrow> time \<Rightarrow> token" where
  "jwt_sign userId typ secret expiresIn now =
     Signed secret \<lparr> jwt_userId = userId, jwt_type = typ,
                     jwt_iat = now div 1000, jwt_exp = Some (now div 1000 + expiresIn) \<rparr>"

definition jwt_verify :: "token \<Rightarrow> string \<Rightarrow> time \<Rightarrow> exn + jwt_payload" where
  "jwt_verify tok secret now =
     (case tok of
        Malformed _ \<Rightarrow> Inl JsonWebTokenError
      | Signed k p \<Rightarrow>
          if k \<noteq> secret then Inl JsonWebTokenError
          else (case jwt_exp p of
                  None \<Rightarrow> Inr p
                | Some e \<Rightarrow> if now div 1000 \<ge> e then Inl TokenExpiredError else Inr p))"

subsection \<open>Configuration and tables\<close>

text \<open>\<^verbatim>\<open>config.jwt.accessTokenExpiry\<close> (default \<^verbatim>\<open>'15m'\<close>) is held in seconds.\<close>
record config =
  jwt_secret :: string
  accessTokenExpiry :: int
  encryption_key :: string

record user =
  user_id :: string
  user_email :: string
  user_passwordHash :: "string option"
  user_name :: "string option"
  user_subscriptionTier :: string
  user_subscriptionStatus :: string
  user_trialEndsAt :: "time option"
  user_mfaEnabled :: bool
  user_mfaSecret :: "string option"
  user_backupCodes :: "string list option"
  user_passwordResetTokenHash :: "string option"
  user_passwordResetTokenExpiry :: "time option"
  user_deletedAt :: "time option"
  user_lastLoginAt :: "time option"
  user_teamId :: "string option"
  user_teamRole :: "string option"

record session =
  sess_id :: string
  sess_userId :: string
  sess_token :: token
  sess_refreshToken :: string
  sess_deviceInfo :: "string option"
  sess_ipAddress :: "string option"
  sess_userAgent :: string
  sess_createdAt :: time
  sess_lastUsedAt :: time
  sess_expiresAt :: time

record device =
  dev_userId :: string
  dev_deviceId :: string
  dev_name :: string
  dev_platform :: string
  dev_lastUsedAt :: time

record db =
  users :: "user list"
  sessions :: "session list"
  devices :: "device list"

subsection \<open>Token service\<close>

definition generateAccessToken :: "config \<Rightarrow> string \<Rightarrow> time \<Rightarrow> token" where
  "generateAccessToken cfg userId now =
     jwt_sign userId ''access'' (jwt_secret cfg) (accessTokenExpiry cfg) now"

text \<open>The argument is the result of \<^verbatim>\<open>crypto.randomBytes(32)\<close>.\<close>
definition generateRefreshToken :: "bytes \<Rightarrow> string" where
  "generateRefreshToken rnd = to_hex rnd"

text \<open>\<^verbatim>\<open>ipAddress || null\<close>.\<close>
definition or_null :: "string option \<Rightarrow> string option" where
  "or_null v = (case v of None \<Rightarrow> None | Some s \<Rightarrow> if s = [] then None else Some s)"

text \<open>
  Modelled from the spec: the Prisma schema is not among the sources. The session's
  refresh token is looked up with \<^verbatim>\<open>findUnique\<close>, and the spec (section 3) makes
  refresh-token values globally unique, so a write that would give two sessions the
  same refresh token is refused by the store.
\<close>
definition refreshToken_taken :: "string \<Rightarrow> string \<Rightarrow> session list \<Rightarrow> bool" where
  "refreshToken_taken rt own_id ss =
     list_ex (\<lambda>s. sess_refreshToken s = rt \<and> sess_id s \<noteq> own_id) ss"

definition refreshTokens_unique :: "session list \<Rightarrow> bool" where
  "refreshTokens_unique ss = distinct (map sess_refreshToken ss)"

text \<open>\<^verbatim>\<open>new_id\<close> is the key the store gives the new row.\<close>
definition createSession ::
  "config \<Rightarrow> time \<Rightarrow> string \<Rightarrow> bytes \<Rightarrow> string \<Rightarrow> string \<Rightarrow> string option \<Rightarrow> string \<Rightarrow> db
     \<Rightarrow> exn + ((token \<times> string) \<times> db)" where
  "createSession cfg now new_id rnd userId deviceId ipAddress userAgent d =
     (let accessToken = generateAccessToken cfg userId now;
          refreshToken = generateRefreshToken rnd;
          expiresAt = now + 7 * 24 * 60 * 60 * 1000
      in if list_ex (\<lambda>s. sess_refreshToken s = refreshToken) (sessions d)
         then Inl UniqueConstraintViolation
         else Inr ((accessToken, refreshToken),
                   d\<lparr>sessions := sessions d @
                      [\<lparr> sess_id = new_id, sess_userId = userId, sess_token = accessToken,
                         sess_refreshToken = refreshToken, sess_deviceInfo = Some deviceId,
                         sess_ipAddress = or_null ipAddress, sess_userAgent = userAgent,
                         sess_createdAt = now, sess_lastUsedAt = now,
                         sess_expiresAt = expiresAt \<rparr>]\<rparr>))"

definition refreshAccessToken ::
  "config \<Rightarrow> time \<Rightarrow> bytes \<Rightarrow> string \<Rightarrow> db \<Rightarrow> exn + ((token \<times> string) option \<times> db)" where
  "refreshAccessToken cfg now rnd refreshToken d =
     (case find (\<lambda>s. sess_refreshToken s = refreshToken) (sessions d) of
        None \<Rightarrow> Inr (None, d)
      | Some session \<Rightarrow>
          if sess_expiresAt session < now then Inr (None, d)
          else
            (let accessToken = generateAccessToken cfg (sess_userId session) now;
                 newRefreshToken = generateRefreshToken rnd
             in if refreshToken_taken newRefreshToken (sess_id session) (sessions d)
                then Inl UniqueConstraintViolation
                else Inr (Some (accessToken, newRefreshToken),
                          d\<lparr>sessions :=
                             map (\<lambda>s. if sess_id s = sess_id session
                                       then s\<lparr> sess_token := accessToken,
                                               sess_refreshToken := newRefreshToken,
                                               sess_lastUsedAt := now \<rparr>
                                       else s) (sessions d)\<rparr>)))"

definition revokeSession :: "token \<Rightarrow> db \<Rightarrow> db" where
  "revokeSession tok d = d\<lparr>sessions := filter (\<lambda>s. sess_token s \<noteq> tok) (sessions d)\<rparr>"

definition revokeAllSessions :: "string \<Rightarrow> db \<Rightarrow> db" where
  "revokeAllSessions userId d =
     d\<lparr>sessions := filter (\<lambda>s. sess_userId s \<noteq> userId) (sessions d)\<rparr>"

definition createTempToken :: "config \<Rightarrow> string \<Rightarrow> time \<Rightarrow> token" where
  "createTempToken cfg userId now = jwt_sign userId ''mfa_temp'' (jwt_secret cfg) 600 now"

definition verifyTempToken :: "config \<Rightarrow> token \<Rightarrow> time \<Rightarrow> string option" where
  "verifyTempToken cfg tok now =
     (case jwt_verify tok (jwt_secret cfg) now of
        Inl _ \<Rightarrow> None
      | Inr decoded \<Rightarrow> if jwt_type decoded \<noteq> ''mfa_temp'' then None else Some (jwt_userId decoded))"

text \<open>The aliases \<^verbatim>\<open>createTemporaryToken\<close>, \<^verbatim>\<open>verifyTemporaryToken\<close> and \<^verbatim>\<open>refreshSession\<close>.\<close>
definition createTemporaryToken :: "config \<Rightarrow> string \<Rightarrow> time \<Rightarrow> token" where
  "createTemporaryToken = createTempToken"

definition verifyTemporaryToken :: "config \<Rightarrow> token \<Rightarrow> time \<Rightarrow> string option" where
  "verifyTemporaryToken = verifyTempToken"

definition refreshSession ::
  "config \<Rightarrow> time \<Rightarrow> bytes \<Rightarrow> string \<Rightarrow> db \<Rightarrow> exn + ((token \<times> string) option \<times> db)" where
  "refreshSession = refreshAccessToken"

subsection \<open>Libraries outside the repository\<close>

text \<open>
  The functions the handlers call in libraries and in the password utility
  (\<^verbatim>\<open>utils/password\<close>, not among the sources). \<^verbatim>\<open>hashPassword\<close> takes the salt it draws
  as its second argument. \<^verbatim>\<open>gcm_encrypt key iv plaintext\<close> gives the ciphertext and the
  authentication tag of AES-256-GCM; \<^verbatim>\<open>gcm_decrypt key iv tag ciphertext\<close> is \<^verbatim>\<open>None\<close> when
  the tag does not authenticate. \<^verbatim>\<open>totp_generate secret counter\<close> is the one-time code of
  speakeasy for a time step.
\<close>
record lib =
  hashPassword :: "string \<Rightarrow> bytes \<Rightarrow> string"
  verifyPassword :: "string \<Rightarrow> string \<Rightarrow> bool"
  sha256_hex :: "string \<Rightarrow> string"
  pbkdf2Sync :: "string \<Rightarrow> bytes \<Rightarrow> bytes"
  gcm_encrypt :: "bytes \<Rightarrow> bytes \<Rightarrow> bytes \<Rightarrow> bytes \<times> bytes"
  gcm_decrypt :: "bytes \<Rightarrow> bytes \<Rightarrow> bytes \<Rightarrow> bytes \<Rightarrow> bytes option"
  totp_generate :: "string \<Rightarrow> int \<Rightarrow> string"
  qrcode_toDataURL :: "string \<Rightarrow> string"

text \<open>
  \<^verbatim>\<open>speakeasy.totp.verify({secret, token, window})\<close>: the time step is 30 seconds, and the
  code is compared with the codes of the steps from \<^verbatim>\<open>window\<close> before the current one to
  \<^verbatim>\<open>window\<close> after it. The library compares the numbers that a submitted text of six
  characters and the generated codes denote; here the texts are compared, which is the
  same for codes of six digits.
\<close>
definition totp_verify :: "lib \<Rightarrow> string \<Rightarrow> string \<Rightarrow> int \<Rightarrow> time \<Rightarrow> bool" where
  "totp_verify L secret tok window now =
     (let counter = now div 1000 div 30
      in list_ex (\<lambda>c. totp_generate L secret c = tok) [counter - window .. counter + window])"

subsection \<open>Encryption utility\<close>

text \<open>
  \<^verbatim>\<open>iv\<close> and \<^verbatim>\<open>salt\<close> are the results of \<^verbatim>\<open>randomBytes(16)\<close> and \<^verbatim>\<open>randomBytes(64)\<close>.
  In \<^verbatim>\<open>decrypt\<close>, salt, initialisation vector and tag go through \<^verbatim>\<open>Buffer.from\<close>,
  while the ciphertext is given to \<^verbatim>\<open>decipher.update\<close> as hexadecimal text, which
  throws on a text of odd length.
\<close>
definition encrypt :: "lib \<Rightarrow> string \<Rightarrow> string \<Rightarrow> bytes \<Rightarrow> bytes \<Rightarrow> string" where
  "encrypt L text key iv salt =
     (let derivedKey = pbkdf2Sync L key salt;
          sealed = gcm_encrypt L derivedKey iv (utf8_encode text);
          encrypted = to_hex (fst sealed);
          tag = snd sealed
      in to_hex salt @ '':'' @ to_hex iv @ '':'' @ to_hex tag @ '':'' @ encrypted)"

definition decrypt :: "lib \<Rightarrow> string \<Rightarrow> string \<Rightarrow> exn + string" where
  "decrypt L encryptedData key =
     (case split CHR '':'' encryptedData of
        [saltHex, ivHex, tagHex, encrypted] \<Rightarrow>
          (let salt = from_hex saltHex;
               iv = from_hex ivHex;
               tag = from_hex tagHex;
               derivedKey = pbkdf2Sync L key salt
           in if odd (length encrypted) then Inl InvalidArgValue
              else
                (case gcm_decrypt L derivedKey iv tag (from_hex encrypted) of
                   None \<Rightarrow> Inl AuthTagMismatch
                 | Some decrypted \<Rightarrow> Inr (utf8_decode decrypted)))
      | _ \<Rightarrow> Inl InvalidEncryptedDataFormat)"

subsection \<open>Requests and responses\<close>

datatype authorization = Bearer token | OtherScheme string

text \<open>
  What a handler reads of the request besides its body: \<^verbatim>\<open>req.ip\<close>, the headers
  \<^verbatim>\<open>user-agent\<close>, \<^verbatim>\<open>x-device-id\<close> and \<^verbatim>\<open>authorization\<close>, and the errors that the
  express-validator chain of the route has collected (\<^verbatim>\<open>validationResult(req)\<close>).
  The fields of the body are given to a handler as the chain leaves them, that is after
  its sanitizers (\<^verbatim>\<open>normalizeEmail\<close>, \<^verbatim>\<open>trim\<close>).
\<close>
record request =
  req_ip :: "string option"
  req_userAgent :: "string option"
  req_deviceIdHeader :: "string option"
  req_authorization :: "authorization option"
  req_validationErrors :: "string list"

record deviceInfo =
  di_deviceId :: "string option"
  di_platform :: "string option"
  di_name :: "string option"

record user_view =
  v_id :: string
  v_email :: string
  v_name :: "string option"
  v_subscriptionTier :: string
  v_subscriptionStatus :: "string option"
  v_trialEndsAt :: "time option"
  v_mfaEnabled :: "bool option"

text \<open>
  The JSON bodies. \<^verbatim>\<open>UserWithTokens\<close> is \<^verbatim>\<open>{message, user, accessToken, refreshToken}\<close>,
  \<^verbatim>\<open>UserWithNestedTokens\<close> is \<^verbatim>\<open>{user, tokens: {accessToken, refreshToken}}\<close>,
  \<^verbatim>\<open>MfaRequired\<close> is \<^verbatim>\<open>{requiresMfa: true, tempToken}\<close>.
\<close>
datatype body =
    ErrorBody string
  | SubscriptionRequired string
  | ValidationErrors "string list"
  | MessageBody string
  | MfaRequired token
  | UserWithTokens string user_view token string
  | UserWithNestedTokens user_view token string
  | TokenPair token string
  | MfaSetupBody string string "string list option"
  | MfaEnabledBody string "string list"

type_synonym response = "nat \<times> body"

text \<open>Whether a body hands an access token and a refresh token to the client.\<close>
fun carries_tokens :: "body \<Rightarrow> bool" where
  "carries_tokens (UserWithTokens _ _ _ _) = True"
| "carries_tokens (UserWithNestedTokens _ _ _) = True"
| "carries_tokens (TokenPair _ _) = True"
| "carries_tokens _ = False"

text \<open>Values drawn afresh while a request is served: keys of new rows and random bytes.\<close>
record fresh =
  fresh_userId :: string
  fresh_sessionId :: string
  fresh_uuid :: string
  fresh_refresh :: bytes
  fresh_salt :: bytes
  fresh_backup :: "nat \<Rightarrow> bytes"
  fresh_iv :: "nat \<Rightarrow> bytes"
  fresh_encSalt :: "nat \<Rightarrow> bytes"
  fresh_secret :: string
  fresh_otpauth_url :: string

text \<open>A text is truthy when it is present and not empty; \<^verbatim>\<open>v || d\<close> on texts.\<close>
definition truthy :: "string option \<Rightarrow> bool" where
  "truthy v = (case v of None \<Rightarrow> False | Some s \<Rightarrow> s \<noteq> [])"

definition or_else :: "string option \<Rightarrow> string \<Rightarrow> string" where
  "or_else v d = (case v of None \<Rightarrow> d | Some s \<Rightarrow> if s = [] then d else s)"

text \<open>A value inside a template literal.\<close>
definition interpolate :: "string option \<Rightarrow> string" where
  "interpolate v = (case v of None \<Rightarrow> ''undefined'' | Some s \<Rightarrow> s)"

text \<open>Lower case of the letters A to Z; other characters are left as they are.\<close>
definition toLowerCase_char :: "char \<Rightarrow> char" where
  "toLowerCase_char c =
     (let n = of_char c :: nat in if 65 \<le> n \<and> n \<le> 90 then char_of (n + 32) else c)"

definition toLowerCase :: "string \<Rightarrow> string" where
  "toLowerCase s = map toLowerCase_char s"

fun startsWith :: "string \<Rightarrow> string \<Rightarrow> bool" where
  "startsWith s [] = True"
| "startsWith [] (p # ps) = False"
| "startsWith (c # cs) (p # ps) = (c = p \<and> startsWith cs ps)"

fun str_includes :: "string \<Rightarrow> string \<Rightarrow> bool" where
  "str_includes [] p = (p = [])"
| "str_includes (c # cs) p = (startsWith (c # cs) p \<or> str_includes cs p)"

text \<open>\<^verbatim>\<open>/word/i.test(s)\<close> for a pattern that is a plain word.\<close>
definition test_i :: "string \<Rightarrow> string \<Rightarrow> bool" where
  "test_i word s = str_includes (toLowerCase s) (toLowerCase word)"

subsection \<open>Bearer-token middleware and the error handler\<close>

record auth_user =
  au_id :: string
  au_email :: string
  au_subscriptionTier :: string
  au_teamId :: "string option"
  au_teamRole :: "string option"

datatype auth_outcome = Responded response | Next auth_user | NextError exn

definition authenticate :: "config \<Rightarrow> time \<Rightarrow> request \<Rightarrow> db \<Rightarrow> auth_outcome" where
  "authenticate cfg now req d =
     (case req_authorization req of
        None \<Rightarrow> Responded (401, ErrorBody ''No token provided'')
      | Some (OtherScheme _) \<Rightarrow> Responded (401, ErrorBody ''No token provided'')
      | Some (Bearer tok) \<Rightarrow>
          (case jwt_verify tok (jwt_secret cfg) now of
             Inl e \<Rightarrow>
               if instanceof_JsonWebTokenError e
               then Responded (401, ErrorBody ''Invalid token'')
               else NextError e
           | Inr decoded \<Rightarrow>
               (case find (\<lambda>u. user_id u = jwt_userId decoded) (users d) of
                  None \<Rightarrow> Responded (401, ErrorBody ''User not found'')
                | Some user \<Rightarrow>
                    if user_deletedAt user \<noteq> None
                    then Responded (401, ErrorBody ''User not found'')
                    else if user_subscriptionTier user \<noteq> ''FREE''
                            \<and> user_subscriptionStatus user \<noteq> ''ACTIVE''
                            \<and> user_subscriptionStatus user \<noteq> ''TRIAL''
                    then Responded (403, SubscriptionRequired (user_subscriptionStatus user))
                    else Next \<lparr> au_id = user_id user, au_email = user_email user,
                                au_subscriptionTier = user_subscriptionTier user,
                                au_teamId = or_null (user_teamId user),
                                au_teamRole = or_null (user_teamRole user) \<rparr>)))"

fun errorHandler :: "exn \<Rightarrow> response" where
  "errorHandler UniqueConstraintViolation = (409, ErrorBody ''Duplicate entry'')"
| "errorHandler JsonWebTokenError = (401, ErrorBody ''Invalid token'')"
| "errorHandler TokenExpiredError = (401, ErrorBody ''Token expired'')"
| "errorHandler InvalidEncryptedDataFormat = (500, ErrorBody ''Invalid encrypted data format'')"
| "errorHandler AuthTagMismatch =
     (500, ErrorBody ''Unsupported state or unable to authenticate data'')"
| "errorHandler InvalidArgValue =
     (500, ErrorBody ''The argument encoding is invalid for data of odd length'')"

subsection \<open>Auth service\<close>

definition detectPlatform :: "request \<Rightarrow> deviceInfo option \<Rightarrow> string" where
  "detectPlatform req deviceInfo =
     (let given = (case deviceInfo of None \<Rightarrow> None | Some di \<Rightarrow> di_platform di)
      in if truthy given then or_else given []
         else
           (let userAgent = or_else (req_userAgent req) []
            in if test_i ''iPhone'' userAgent \<or> test_i ''iPad'' userAgent
                    \<or> test_i ''iPod'' userAgent then ''ios''
               else if test_i ''Android'' userAgent then ''android''
               else ''web''))"

definition generateDeviceName :: "request \<Rightarrow> deviceInfo option \<Rightarrow> string" where
  "generateDeviceName req deviceInfo =
     (let given = (case deviceInfo of None \<Rightarrow> None | Some di \<Rightarrow> di_name di)
      in if truthy given then or_else given []
         else
           (let userAgent = or_else (req_userAgent req) []
            in if test_i ''iPhone'' userAgent then ''iPhone''
               else if test_i ''iPad'' userAgent then ''iPad''
               else if test_i ''Android'' userAgent then ''Android Device''
               else if test_i ''Macintosh'' userAgent then ''Mac''
               else if test_i ''Windows'' userAgent then ''Windows PC''
               else if test_i ''Linux'' userAgent then ''Linux''
               else ''Unknown Device''))"

text \<open>The upsert on the pair of user and device identifier.\<close>
definition recordDevice ::
  "time \<Rightarrow> string \<Rightarrow> string \<Rightarrow> deviceInfo option \<Rightarrow> request \<Rightarrow> db \<Rightarrow> db" where
  "recordDevice now userId deviceId deviceInfo req d =
     (let platform = detectPlatform req deviceInfo;
          deviceName = generateDeviceName req deviceInfo
      in if list_ex (\<lambda>v. dev_userId v = userId \<and> dev_deviceId v = deviceId) (devices d)
         then d\<lparr>devices :=
                  map (\<lambda>v. if dev_userId v = userId \<and> dev_deviceId v = deviceId
                            then v\<lparr>dev_lastUsedAt := now\<rparr> else v) (devices d)\<rparr>
         else d\<lparr>devices := devices d @
                  [\<lparr> dev_userId = userId, dev_deviceId = deviceId, dev_name = deviceName,
                     dev_platform = platform, dev_lastUsedAt = now \<rparr>]\<rparr>)"

text \<open>\<^verbatim>\<open>prisma.user.update({where: {id}, data})\<close> on a row that exists.\<close>
definition update_user :: "string \<Rightarrow> (user \<Rightarrow> user) \<Rightarrow> db \<Rightarrow> db" where
  "update_user userId f d =
     d\<lparr>users := map (\<lambda>u. if user_id u = userId then f u else u) (users d)\<rparr>"

definition createPasswordResetToken :: "lib \<Rightarrow> time \<Rightarrow> bytes \<Rightarrow> string \<Rightarrow> db \<Rightarrow> string \<times> db" where
  "createPasswordResetToken L now rnd userId d =
     (let token = to_hex rnd;
          tokenHash = sha256_hex L token;
          expiresAt = now + 60 * 60 * 1000
      in (token,
          update_user userId
            (\<lambda>u. u\<lparr> user_passwordResetTokenHash := Some tokenHash,
                     user_passwordResetTokenExpiry := Some expiresAt \<rparr>) d))"

definition verifyPasswordResetToken :: "lib \<Rightarrow> time \<Rightarrow> string \<Rightarrow> db \<Rightarrow> string option" where
  "verifyPasswordResetToken L now token d =
     (let tokenHash = sha256_hex L token
      in case find (\<lambda>u. user_passwordResetTokenHash u = Some tokenHash
                        \<and> (case user_passwordResetTokenExpiry u of
                              None \<Rightarrow> False
                            | Some e \<Rightarrow> e > now)) (users d) of
           None \<Rightarrow> None
         | Some user \<Rightarrow> if user_id user = [] then None else Some (user_id user))"

subsection \<open>Email service\<close>

text \<open>
  \<^verbatim>\<open>EmailService.sendEmail\<close> sends nothing: in development, or when no API key is
  configured, it writes the recipient and the subject to the log and returns, and
  otherwise it writes them to the log and returns. The result is the exception the call
  throws, if any; as neither branch throws, it is always \<^verbatim>\<open>None\<close>. The pictograph at
  the end of the welcome subject is left out.
\<close>
definition sendEmail :: "string \<Rightarrow> string \<Rightarrow> exn option" where
  "sendEmail recipient subject = None"


definition sendPasswordResetEmail :: "string \<Rightarrow> string \<Rightarrow> exn option" where
  "sendPasswordResetEmail email resetToken = sendEmail email ''Reset Your Wyndo Password''"

subsection \<open>Registration\<close>




definition getDeviceId :: "lib \<Rightarrow> request \<Rightarrow> deviceInfo option \<Rightarrow> string" where
  "getDeviceId L req deviceInfo =
     (let given = (case deviceInfo of None \<Rightarrow> None | Some di \<Rightarrow> di_deviceId di)
      in if truthy given then or_else given []
         else
           (let fingerprint = interpolate (req_ip req) @ ''-'' @ interpolate (req_userAgent req)
            in take 32 (sha256_hex L fingerprint)))"


subsection \<open>Login\<close>

definition login_view :: "user \<Rightarrow> bool \<Rightarrow> user_view" where
  "login_view u with_mfa =
     \<lparr> v_id = user_id u, v_email = user_email u, v_name = user_name u,
       v_subscriptionTier = user_subscriptionTier u,
       v_subscriptionStatus = Some (user_subscriptionStatus u),
       v_trialEndsAt = None,
       v_mfaEnabled = (if with_mfa then Some (user_mfaEnabled u) else None) \<rparr>"

text \<open>\<^verbatim>\<open>AuthController.login\<close>.\<close>
definition controller_login ::
  "lib \<Rightarrow> config \<Rightarrow> time \<Rightarrow> fresh \<Rightarrow> request \<Rightarrow> string \<Rightarrow> string \<Rightarrow> deviceInfo option
     \<Rightarrow> db \<Rightarrow> response \<times> db" where
  "controller_login L cfg now fr req email password deviceInfo d =
     (if req_validationErrors req \<noteq> []
      then ((400, ValidationErrors (req_validationErrors req)), d)
      else
        (case find (\<lambda>u. user_email u = toLowerCase email) (users d) of
           None \<Rightarrow> ((401, ErrorBody ''Invalid email or password''), d)
         | Some user \<Rightarrow>
             if \<not> truthy (user_passwordHash user)
             then ((401, ErrorBody ''Invalid email or password''), d)
             else if \<not> verifyPassword L password (or_else (user_passwordHash user) [])
             then ((401, ErrorBody ''Invalid email or password''), d)
             else if user_deletedAt user \<noteq> None
             then ((401, ErrorBody ''Account has been deactivated''), d)
             else if user_mfaEnabled user
             then ((200, MfaRequired (createTemporaryToken cfg (user_id user) now)), d)
             else
               (let deviceId = or_else (req_deviceIdHeader req) (fresh_uuid fr);
                    ipAddress = or_else (req_ip req) ''unknown'';
                    userAgent = or_else (req_userAgent req) ''unknown''
                in case createSession cfg now (fresh_sessionId fr) (fresh_refresh fr)
                          (user_id user) deviceId (Some ipAddress) userAgent d of
                     Inl e \<Rightarrow> ((500, ErrorBody ''Login failed''), d)
                   | Inr ((accessToken, refreshToken), d1) \<Rightarrow>
                       (let d2 = recordDevice now (user_id user) deviceId deviceInfo req d1;
                            d3 = update_user (user_id user)
                                   (\<lambda>u. u\<lparr>user_lastLoginAt := Some now\<rparr>) d2
                        in ((200, UserWithTokens ''Login successful'' (login_view user True)
                                    accessToken refreshToken), d3)))))"

text \<open>\<^verbatim>\<open>POST /login\<close> of the router.\<close>
definition route_login ::
  "lib \<Rightarrow> config \<Rightarrow> time \<Rightarrow> fresh \<Rightarrow> request \<Rightarrow> string \<Rightarrow> string \<Rightarrow> deviceInfo option
     \<Rightarrow> db \<Rightarrow> response \<times> db" where
  "route_login L cfg now fr req email password deviceInfo d =
     (if req_validationErrors req \<noteq> []
      then ((400, ValidationErrors (req_validationErrors req)), d)
      else
        (case find (\<lambda>u. user_email u = email) (users d) of
           None \<Rightarrow> ((401, ErrorBody ''Invalid email or password''), d)
         | Some user \<Rightarrow>
             if user_deletedAt user \<noteq> None
             then ((401, ErrorBody ''Invalid email or password''), d)
             else if \<not> truthy (user_passwordHash user)
             then ((401, ErrorBody ''Invalid email or password''), d)
             else if \<not> verifyPassword L password (or_else (user_passwordHash user) [])
             then ((401, ErrorBody ''Invalid email or password''), d)
             else if user_mfaEnabled user
             then ((200, MfaRequired (createTempToken cfg (user_id user) now)), d)
             else
               (let d1 = update_user (user_id user)
                           (\<lambda>u. u\<lparr>user_lastLoginAt := Some now\<rparr>) d;
                    deviceId = getDeviceId L req deviceInfo
                in case createSession cfg now (fresh_sessionId fr) (fresh_refresh fr)
                          (user_id user) deviceId (req_ip req)
                          (or_else (req_userAgent req) []) d1 of
                     Inl e \<Rightarrow> ((500, ErrorBody ''Login failed''), d1)
                   | Inr ((accessToken, refreshToken), d2) \<Rightarrow>
                       (let d3 = recordDevice now (user_id user) deviceId deviceInfo req d2
                        in ((200, UserWithNestedTokens (login_view user False)
                                    accessToken refreshToken), d3)))))"

subsection \<open>Password reset confirmation\<close>

text \<open>\<^verbatim>\<open>AuthController.confirmPasswordReset\<close>.\<close>
definition controller_confirmPasswordReset ::
  "lib \<Rightarrow> time \<Rightarrow> fresh \<Rightarrow> string \<Rightarrow> string \<Rightarrow> db \<Rightarrow> response \<times> db" where
  "controller_confirmPasswordReset L now fr token password d =
     (case verifyPasswordResetToken L now token d of
        None \<Rightarrow> ((400, ErrorBody ''Invalid or expired reset token''), d)
      | Some userId \<Rightarrow>
          (let passwordHash = hashPassword L password (fresh_salt fr);
               d1 = update_user userId
                      (\<lambda>u. u\<lparr> user_passwordHash := Some passwordHash,
                               user_passwordResetTokenHash := None,
                               user_passwordResetTokenExpiry := None \<rparr>) d;
               d2 = revokeAllSessions userId d1
           in ((200, MessageBody
                  ''Password reset successful. Please login with your new password.''), d2)))"

text \<open>\<^verbatim>\<open>POST /password/reset/confirm\<close> of the router.\<close>
definition route_password_reset_confirm ::
  "lib \<Rightarrow> time \<Rightarrow> fresh \<Rightarrow> request \<Rightarrow> string \<Rightarrow> string \<Rightarrow> db \<Rightarrow> response \<times> db" where
  "route_password_reset_confirm L now fr req token password d =
     (if req_validationErrors req \<noteq> []
      then ((400, ValidationErrors (req_validationErrors req)), d)
      else
        (case verifyPasswordResetToken L now token d of
           None \<Rightarrow> ((400, ErrorBody ''Invalid or expired reset token''), d)
         | Some userId \<Rightarrow>
             (let newPasswordHash = hashPassword L password (fresh_salt fr);
                  d1 = update_user userId
                         (\<lambda>u. u\<lparr> user_passwordHash := Some newPasswordHash,
                                  user_passwordResetTokenHash := None,
                                  user_passwordResetTokenExpiry := None \<rparr>) d;
                  d2 = revokeAllSessions userId d1
              in ((200, MessageBody ''Password reset successfully''), d2))))"

subsection \<open>Multi-factor authentication\<close>

text \<open>
  The column \<^verbatim>\<open>backupCodes\<close> holds a list of texts. The controller writes it with
  \<^verbatim>\<open>JSON.stringify\<close> and reads it with \<^verbatim>\<open>JSON.parse\<close>, which give back the
  same list of texts; the router writes the list itself.
\<close>

text \<open>\<^verbatim>\<open>xs.indexOf(x)\<close>, and the list that \<^verbatim>\<open>xs.splice(i, 1)\<close> leaves in \<^verbatim>\<open>xs\<close>.\<close>
fun indexOf :: "'a list \<Rightarrow> 'a \<Rightarrow> int" where
  "indexOf [] x = - 1"
| "indexOf (y # ys) x =
     (if y = x then 0 else (let i = indexOf ys x in if i = - 1 then - 1 else i + 1))"

definition splice1 :: "'a list \<Rightarrow> int \<Rightarrow> 'a list" where
  "splice1 xs i = take (nat i) xs @ drop (nat i + 1) xs"

text \<open>The ten backup codes: \<^verbatim>\<open>randomBytes(4).toString('hex').toUpperCase()\<close>, ten times.\<close>
definition generateBackupCodes :: "fresh \<Rightarrow> string list" where
  "generateBackupCodes fr = map (\<lambda>i. toUpperCase (to_hex (fresh_backup fr i))) [0..<10]"

definition mfa_view :: "user \<Rightarrow> user_view" where
  "mfa_view u =
     \<lparr> v_id = user_id u, v_email = user_email u, v_name = user_name u,
       v_subscriptionTier = user_subscriptionTier u, v_subscriptionStatus = None,
       v_trialEndsAt = None, v_mfaEnabled = None \<rparr>"

text \<open>
  The fallback of \<^verbatim>\<open>verifyMfa\<close> when the one-time code is not valid: \<^verbatim>\<open>None\<close> when the
  handler answers 401, the database after the update otherwise.
\<close>
definition check_backup_code :: "user \<Rightarrow> string \<Rightarrow> db \<Rightarrow> db option" where
  "check_backup_code user code d =
     (case user_backupCodes user of
        None \<Rightarrow> None
      | Some backupCodes \<Rightarrow>
          (let codeIndex = indexOf backupCodes code
           in if codeIndex \<noteq> - 1
              then Some (update_user (user_id user)
                           (\<lambda>u. u\<lparr>user_backupCodes := Some (splice1 backupCodes codeIndex)\<rparr>) d)
              else None))"

text \<open>\<^verbatim>\<open>AuthController.verifyMfa\<close>.\<close>
definition controller_verifyMfa ::
  "lib \<Rightarrow> config \<Rightarrow> time \<Rightarrow> fresh \<Rightarrow> request \<Rightarrow> token \<Rightarrow> string \<Rightarrow> deviceInfo option
     \<Rightarrow> db \<Rightarrow> response \<times> db" where
  "controller_verifyMfa L cfg now fr req tempToken code deviceInfo d =
     (if \<not> truthy (verifyTemporaryToken cfg tempToken now)
      then ((401, ErrorBody ''Invalid or expired token''), d)
      else
        (case find (\<lambda>u. user_id u = or_else (verifyTemporaryToken cfg tempToken now) [])
                (users d) of
           None \<Rightarrow> ((401, ErrorBody ''MFA not configured''), d)
         | Some user \<Rightarrow>
             if \<not> truthy (user_mfaSecret user)
             then ((401, ErrorBody ''MFA not configured''), d)
             else
               (case decrypt L (or_else (user_mfaSecret user) []) (encryption_key cfg) of
                  Inl e \<Rightarrow> ((500, ErrorBody ''MFA verification failed''), d)
                | Inr decryptedSecret \<Rightarrow>
                    (case (if totp_verify L decryptedSecret code 1 now then Some d
                           else check_backup_code user code d) of
                       None \<Rightarrow> ((401, ErrorBody ''Invalid MFA code''), d)
                     | Some d0 \<Rightarrow>
                         (let deviceId = or_else (req_deviceIdHeader req) (fresh_uuid fr);
                              ipAddress = or_else (req_ip req) ''unknown'';
                              userAgent = or_else (req_userAgent req) ''unknown''
                          in case createSession cfg now (fresh_sessionId fr) (fresh_refresh fr)
                                    (user_id user) deviceId (Some ipAddress) userAgent d0 of
                               Inl e \<Rightarrow> ((500, ErrorBody ''MFA verification failed''), d0)
                             | Inr ((accessToken, refreshToken), d1) \<Rightarrow>
                                 (let d2 = recordDevice now (user_id user) deviceId deviceInfo
                                             req d1;
                                      d3 = update_user (user_id user)
                                             (\<lambda>u. u\<lparr>user_lastLoginAt := Some now\<rparr>) d2
                                  in ((200, UserWithTokens ''MFA verification successful''
                                              (mfa_view user) accessToken refreshToken),
                                      d3)))))))"

text \<open>
  \<^verbatim>\<open>AuthController.enableMfa\<close>; \<^verbatim>\<open>userId\<close> is \<^verbatim>\<open>req.userId\<close>. The email with the
  backup codes is sent inside a \<^verbatim>\<open>try\<close> whose \<^verbatim>\<open>catch\<close> only logs, so it has no part in
  the result.
\<close>
definition controller_enableMfa ::
  "lib \<Rightarrow> config \<Rightarrow> time \<Rightarrow> fresh \<Rightarrow> string \<Rightarrow> string \<Rightarrow> db \<Rightarrow> response \<times> db" where
  "controller_enableMfa L cfg now fr userId code d =
     (case find (\<lambda>u. user_id u = userId) (users d) of
        None \<Rightarrow> ((400, ErrorBody ''Please setup MFA first''), d)
      | Some user \<Rightarrow>
          if \<not> truthy (user_mfaSecret user)
          then ((400, ErrorBody ''Please setup MFA first''), d)
          else
            (case decrypt L (or_else (user_mfaSecret user) []) (encryption_key cfg) of
               Inl e \<Rightarrow> ((500, ErrorBody ''Failed to enable MFA''), d)
             | Inr decryptedSecret \<Rightarrow>
                 if \<not> totp_verify L decryptedSecret code 1 now
                 then ((401, ErrorBody ''Invalid code''), d)
                 else
                   (let backupCodes = generateBackupCodes fr;
                        d1 = update_user userId
                               (\<lambda>u. u\<lparr> user_mfaEnabled := True,
                                        user_backupCodes := Some backupCodes \<rparr>) d
                    in ((200, MfaEnabledBody ''MFA enabled successfully'' backupCodes), d1))))"

text \<open>
  \<^verbatim>\<open>POST /mfa/setup\<close> of the router, behind \<^verbatim>\<open>authenticate\<close>. The secret (a
  base32 text, never empty) and its \<^verbatim>\<open>otpauth\<close> address are what
  \<^verbatim>\<open>speakeasy.generateSecret\<close> draws; the secret is sealed with the first
  initialisation vector and salt, the backup codes with the next ten.
\<close>
definition route_mfa_setup ::
  "lib \<Rightarrow> config \<Rightarrow> time \<Rightarrow> fresh \<Rightarrow> request \<Rightarrow> db \<Rightarrow> response \<times> db" where
  "route_mfa_setup L cfg now fr req d =
     (case authenticate cfg now req d of
        Responded r \<Rightarrow> (r, d)
      | NextError e \<Rightarrow> (errorHandler e, d)
      | Next au \<Rightarrow>
          (case find (\<lambda>u. user_id u = au_id au) (users d) of
             None \<Rightarrow> ((404, ErrorBody ''User not found''), d)
           | Some user \<Rightarrow>
               (let encryptedSecret = encrypt L (fresh_secret fr) (encryption_key cfg)
                                        (fresh_iv fr 0) (fresh_encSalt fr 0);
                    backupCodes = generateBackupCodes fr;
                    encryptedBackupCodes =
                      map (\<lambda>(i, code). encrypt L code (encryption_key cfg)
                                          (fresh_iv fr (i + 1)) (fresh_encSalt fr (i + 1)))
                        (enumerate 0 backupCodes);
                    d1 = update_user (user_id user)
                           (\<lambda>u. u\<lparr> user_mfaSecret := Some encryptedSecret,
                                    user_backupCodes := Some encryptedBackupCodes \<rparr>) d;
                    qrCodeUrl = qrcode_toDataURL L (fresh_otpauth_url fr)
                in ((200, MfaSetupBody (fresh_secret fr) qrCodeUrl
                            (Some backupCodes)), d1))))"

text \<open>\<^verbatim>\<open>POST /mfa/enable\<close> of the router, behind \<^verbatim>\<open>authenticate\<close>.\<close>
definition route_mfa_enable ::
  "lib \<Rightarrow> config \<Rightarrow> time \<Rightarrow> request \<Rightarrow> string \<Rightarrow> db \<Rightarrow> response \<times> db" where
  "route_mfa_enable L cfg now req code d =
     (case authenticate cfg now req d of
        Responded r \<Rightarrow> (r, d)
      | NextError e \<Rightarrow> (errorHandler e, d)
      | Next au \<Rightarrow>
          if req_validationErrors req \<noteq> []
          then ((400, ValidationErrors (req_validationErrors req)), d)
          else
            (case find (\<lambda>u. user_id u = au_id au) (users d) of
               None \<Rightarrow> ((400, ErrorBody ''MFA not set up''), d)
             | Some user \<Rightarrow>
                 if \<not> truthy (user_mfaSecret user)
                 then ((400, ErrorBody ''MFA not set up''), d)
                 else
                   (case decrypt L (or_else (user_mfaSecret user) []) (encryption_key cfg) of
                      Inl e \<Rightarrow> ((500, ErrorBody ''Failed to enable MFA''), d)
                    | Inr mfaSecret \<Rightarrow>
                        if \<not> totp_verify L mfaSecret code 2 now
                        then ((401, ErrorBody ''Invalid verification code''), d)
                        else ((200, MessageBody ''MFA enabled successfully''),
                              update_user (user_id user) (\<lambda>u. u\<lparr>user_mfaEnabled := True\<rparr>) d))))"

subsection \<open>Example data\<close>

text \<open>
  A configuration, stand-ins for the libraries, and a small database, used to run the
  handlers on concrete requests. The stand-in cipher shifts every byte by one and uses
  the start of key and initialisation vector as its tag; the stand-in one-time code of a
  time step is the last six decimal digits of the step.
\<close>

definition example_cfg :: config where
  "example_cfg =
     \<lparr> jwt_secret = ''development-secret-change-in-production'',
       accessTokenExpiry = 900,
       encryption_key = ''development-key-32-characters-!!'' \<rparr>"

definition decimal6 :: "nat \<Rightarrow> string" where
  "decimal6 n = map (\<lambda>i. hex_digit ((n div 10 ^ i) mod 10)) [5, 4, 3, 2, 1, 0]"

definition example_lib :: lib where
  "example_lib =
     \<lparr> hashPassword = (\<lambda>password salt. ''hash('' @ password @ '')''),
       verifyPassword = (\<lambda>password h. h = ''hash('' @ password @ '')''),
       sha256_hex = (\<lambda>s. ''sha256('' @ s @ '')''),
       pbkdf2Sync = (\<lambda>key salt. take 32 (salt @ utf8_encode key)),
       gcm_encrypt = (\<lambda>key iv m. (map (\<lambda>b. b + 1) m, take 16 (key @ iv))),
       gcm_decrypt = (\<lambda>key iv tag c.
                        if tag = take 16 (key @ iv) then Some (map (\<lambda>b. b - 1) c) else None),
       totp_generate = (\<lambda>secret c. decimal6 (nat (c mod 1000000))),
       qrcode_toDataURL = (\<lambda>url. ''data:image/png;base64,'' @ url) \<rparr>"

definition example_now :: time where
  "example_now = 1700000000000"

definition example_secret :: string where
  "example_secret = ''JBSWY3DPEHPK3PXP''"

definition example_fresh :: fresh where
  "example_fresh =
     \<lparr> fresh_userId = ''user_dave'',
       fresh_sessionId = ''sess_new'',
       fresh_uuid = ''3b241101-e2bb-4255-8caf-4136c566a962'',
       fresh_refresh = replicate 32 92,
       fresh_salt = replicate 16 3,
       fresh_backup = (\<lambda>i. [of_nat i, 171, 205, 239]),
       fresh_iv = (\<lambda>i. replicate 16 (of_nat i)),
       fresh_encSalt = (\<lambda>i. replicate 64 (of_nat i)),
       fresh_secret = example_secret,
       fresh_otpauth_url = ''otpauth://totp/Wyndo?secret=JBSWY3DPEHPK3PXP'' \<rparr>"

definition example_request :: request where
  "example_request =
     \<lparr> req_ip = Some ''203.0.113.7'',
       req_userAgent = Some ''Mozilla/5.0 (Macintosh)'',
       req_deviceIdHeader = None,
       req_authorization = None,
       req_validationErrors = [] \<rparr>"

definition example_encrypted_secret :: string where
  "example_encrypted_secret =
     encrypt example_lib example_secret (encryption_key example_cfg)
       (replicate 16 7) (replicate 64 9)"

text \<open>Alice has MFA enabled and three backup codes left.\<close>
definition alice :: user where
  "alice =
     \<lparr> user_id = ''user_alice'', user_email = ''alice@x.com'',
       user_passwordHash = Some ''hash(Passw0rd!)'', user_name = Some ''Alice'',
       user_subscriptionTier = ''FREE'', user_subscriptionStatus = ''TRIAL'',
       user_trialEndsAt = None, user_mfaEnabled = True,
       user_mfaSecret = Some example_encrypted_secret,
       user_backupCodes = Some [''A1B2C3D4'', ''0F9E8D7C'', ''DEADBEEF''],
       user_passwordResetTokenHash = None, user_passwordResetTokenExpiry = None,
       user_deletedAt = None, user_lastLoginAt = None,
       user_teamId = None, user_teamRole = None \<rparr>"

text \<open>Bob has MFA enabled and has been deactivated.\<close>
definition bob :: user where
  "bob =
     \<lparr> user_id = ''user_bob'', user_email = ''bob@x.com'',
       user_passwordHash = Some ''hash(Secr3tBob)'', user_name = Some ''Bob'',
       user_subscriptionTier = ''FREE'', user_subscriptionStatus = ''TRIAL'',
       user_trialEndsAt = None, user_mfaEnabled = True,
       user_mfaSecret = Some example_encrypted_secret,
       user_backupCodes = None,
       user_passwordResetTokenHash = None, user_passwordResetTokenExpiry = None,
       user_deletedAt = Some 1690000000000, user_lastLoginAt = None,
       user_teamId = None, user_teamRole = None \<rparr>"

text \<open>Carol has set up MFA without enabling it, and has asked for a password reset.\<close>
definition carol :: user where
  "carol =
     \<lparr> user_id = ''user_carol'', user_email = ''carol@x.com'',
       user_passwordHash = Some ''hash(OldPassw0rd)'', user_name = Some ''Carol'',
       user_subscriptionTier = ''FREE'', user_subscriptionStatus = ''TRIAL'',
       user_trialEndsAt = None, user_mfaEnabled = False,
       user_mfaSecret = Some example_encrypted_secret,
       user_backupCodes = None,
       user_passwordResetTokenHash = Some ''sha256(reset-token-1)'',
       user_passwordResetTokenExpiry = Some 1700000600000,
       user_deletedAt = None, user_lastLoginAt = None,
       user_teamId = None, user_teamRole = None \<rparr>"

definition example_session :: "string \<Rightarrow> string \<Rightarrow> 8 word \<Rightarrow> session" where
  "example_session sid uid seed =
     \<lparr> sess_id = sid, sess_userId = uid,
       sess_token = generateAccessToken example_cfg uid 1699999000000,
       sess_refreshToken = generateRefreshToken (replicate 32 seed),
       sess_deviceInfo = Some ''device-1'', sess_ipAddress = Some ''203.0.113.7'',
       sess_userAgent = ''Mozilla/5.0 (Macintosh)'',
       sess_createdAt = 1699999000000, sess_lastUsedAt = 1699999000000,
       sess_expiresAt = 1700603800000 \<rparr>"

definition example_db :: db where
  "example_db =
     \<lparr> users = [alice, bob, carol],
       sessions = [example_session ''sess_1'' ''user_bob'' 17,
                   example_session ''sess_2'' ''user_carol'' 34,
                   example_session ''sess_3'' ''user_carol'' 51],
       devices = [] \<rparr>"

text \<open>The example database after the session of Bob has been refreshed once.\<close>
definition example_db_rotated :: db where
  "example_db_rotated =
     example_db\<lparr>sessions :=
       [(example_session ''sess_1'' ''user_bob'' 17)
          \<lparr> sess_token :=
              Signed ''development-secret-change-in-production''
                \<lparr> jwt_userId = ''user_bob'', jwt_type = ''access'',
                  jwt_iat = 1700000000, jwt_exp = Some 1700000900 \<rparr>,
            sess_refreshToken := to_hex (replicate 32 92),
            sess_lastUsedAt := 1700000000000 \<rparr>,
        example_session ''sess_2'' ''user_carol'' 34,
        example_session ''sess_3'' ''user_carol'' 51]\<rparr>"

section \<open>Properties\<close>

subsection \<open>Lists, hexadecimal text, splitting\<close>

lemma find_Some_mem: "find P xs = Some x \<Longrightarrow> x \<in> set xs \<and> P x"
  by (induction xs) (auto split: if_splits)

lemma find_distinct_key:
  "distinct (map f xs) \<Longrightarrow> x \<in> set xs \<Longrightarrow> find (\<lambda>y. f y = f x) xs = Some x"
  by (induction xs) (auto simp: image_iff)

lemma find_None_no_match: "find P xs = None \<longleftrightarrow> (\<forall>x\<in>set xs. \<not> P x)"
  by (induction xs) auto

lemma hex_digit_table:
  "\<forall>n \<in> set [0..<16]. hex_value (hex_digit n) = Some n \<and> hex_digit n \<noteq> CHR '':''"
  by code_simp

lemma hex_value_digit: "n < 16 \<Longrightarrow> hex_value (hex_digit n) = Some n"
  using hex_digit_table by simp

lemma hex_digit_not_colon: "hex_digit n \<noteq> CHR '':''"
proof -
  have "n mod 16 \<in> set [0..<16]" by simp
  then have "hex_digit (n mod 16) \<noteq> CHR '':''" using hex_digit_table by blast
  then show ?thesis by (simp add: hex_digit_def)
qed

lemma is_hex_digit: "is_hex_char (hex_digit n)"
proof -
  have "n mod 16 \<in> set [0..<16]" by simp
  then have "hex_value (hex_digit (n mod 16)) = Some (n mod 16)" using hex_digit_table by blast
  then show ?thesis by (simp add: hex_digit_def is_hex_char_def)
qed

lemma byte_nibbles: "unat (b :: 8 word) div 16 < 16"
proof -
  have "unat b < 2 ^ LENGTH(8)" by (rule unsigned_less)
  then show ?thesis by simp
qed

lemma from_hex_to_hex: "from_hex (to_hex bs) = bs"
proof (induction bs)
  case Nil
  then show ?case by simp
next
  case (Cons b bs)
  have "(of_nat (16 * (unat b div 16) + unat b mod 16) :: 8 word) = b"
    by simp
  with Cons show ?case
    by (simp add: hex_value_digit byte_nibbles)
qed

lemma to_hex_inject: "to_hex a = to_hex b \<longleftrightarrow> a = b"
  by (metis from_hex_to_hex)

lemma to_hex_no_colon: "CHR '':'' \<notin> set (to_hex bs)"
  by (induction bs) (auto simp: hex_digit_not_colon[symmetric] hex_digit_not_colon)

lemma to_hex_all_hex: "list_all is_hex_char (to_hex bs)"
  by (induction bs) (auto simp: is_hex_digit)

lemma split_no_sep: "sep \<notin> set s \<Longrightarrow> split sep s = [s]"
  by (induction s) auto

lemma split_field: "sep \<notin> set s \<Longrightarrow> split sep (s @ sep # rest) = s # split sep rest"
  by (induction s) auto

lemma even_length_to_hex: "even (length (to_hex bs))"
  by (induction bs) auto

lemma utf8_roundtrip: "utf8_decode (utf8_encode s) = s"
  by (simp add: utf8_decode_def utf8_encode_def comp_def unat_of_nat map_idI)

subsection \<open>Temporary tokens\<close>

lemma verifyTempToken_Some_iff:
  "verifyTempToken cfg tok now = Some uid \<longleftrightarrow>
     (\<exists>p. tok = Signed (jwt_secret cfg) p \<and> jwt_type p = ''mfa_temp'' \<and> jwt_userId p = uid
          \<and> (case jwt_exp p of None \<Rightarrow> True | Some e \<Rightarrow> now div 1000 < e))"
  by (auto simp: verifyTempToken_def jwt_verify_def split: token.splits option.splits if_splits)

subsection \<open>Refresh-token rotation\<close>

text \<open>
  C1. Refresh tokens are single-use. Take a session table in which refresh tokens are
  unique (the store's index), a session \<open>s\<close> of it whose refresh token is \<open>rt\<close>, and a
  refresh with \<open>rt\<close> that succeeds and hands out a refresh token other than \<open>rt\<close>. Then
  the access token handed out is a token signed with the server's secret for the
  session's user, of type \<open>access\<close>, issued at \<open>now\<close> and expiring after the configured
  access-token lifetime; the refresh token is the hexadecimal text of the bytes just
  drawn; the session's row is overwritten in place
  (same position, same key; access token, refresh token and time of last use replaced;
  every other row, the users and the devices untouched), and every later refresh with
  \<open>rt\<close> returns null and changes nothing.
\<close>
theorem refresh_token_single_use:
  assumes uniq: "refreshTokens_unique (sessions d)"
    and mem: "s \<in> set (sessions d)"
    and rt: "sess_refreshToken s = rt"
    and ok: "refreshAccessToken cfg now rnd rt d = Inr (Some (accessToken, newRefreshToken), d')"
    and new: "newRefreshToken \<noteq> rt"
  shows "accessToken =
           Signed (jwt_secret cfg)
             \<lparr> jwt_userId = sess_userId s, jwt_type = ''access'', jwt_iat = now div 1000,
               jwt_exp = Some (now div 1000 + accessTokenExpiry cfg) \<rparr>
       \<and> accessToken = generateAccessToken cfg (sess_userId s) now
       \<and> newRefreshToken = to_hex rnd
       \<and> newRefreshToken = generateRefreshToken rnd
       \<and> sessions d' =
           map (\<lambda>x. if sess_id x = sess_id s
                     then x\<lparr> sess_token := accessToken, sess_refreshToken := newRefreshToken,
                             sess_lastUsedAt := now \<rparr>
                     else x) (sessions d)
       \<and> users d' = users d \<and> devices d' = devices d
       \<and> (\<forall>now' rnd'. refreshAccessToken cfg now' rnd' rt d' = Inr (None, d'))"
proof -
  have f: "find (\<lambda>x. sess_refreshToken x = rt) (sessions d) = Some s"
    using find_distinct_key[of sess_refreshToken "sessions d" s] uniq mem rt
    by (simp add: refreshTokens_unique_def)
  from ok f have exp: "\<not> sess_expiresAt s < now"
    by (auto simp: refreshAccessToken_def split: if_splits)
  from ok f exp have nt: "\<not> refreshToken_taken (generateRefreshToken rnd) (sess_id s) (sessions d)"
    by (auto simp: refreshAccessToken_def Let_def split: if_splits)
  from ok f exp nt have a: "accessToken = generateAccessToken cfg (sess_userId s) now"
    and n: "newRefreshToken = generateRefreshToken rnd"
    and d': "d' = d\<lparr>sessions := map (\<lambda>x. if sess_id x = sess_id s
                     then x\<lparr> sess_token := accessToken, sess_refreshToken := newRefreshToken,
                             sess_lastUsedAt := now \<rparr>
                     else x) (sessions d)\<rparr>"
    by (auto simp: refreshAccessToken_def Let_def)
  have gone: "\<forall>x\<in>set (sessions d'). sess_refreshToken x \<noteq> rt"
  proof
    fix x assume "x \<in> set (sessions d')"
    then obtain y where y: "y \<in> set (sessions d)"
      and x: "x = (if sess_id y = sess_id s
                     then y\<lparr> sess_token := accessToken, sess_refreshToken := newRefreshToken,
                             sess_lastUsedAt := now \<rparr> else y)"
      by (auto simp: d')
    show "sess_refreshToken x \<noteq> rt"
    proof (cases "sess_id y = sess_id s")
      case True
      then show ?thesis using x new by simp
    next
      case False
      then have "y \<noteq> s" by auto
      with uniq y mem have "sess_refreshToken y \<noteq> sess_refreshToken s"
        by (auto simp: refreshTokens_unique_def distinct_map inj_on_def)
      then show ?thesis using x False rt by simp
    qed
  qed
  then have "find (\<lambda>x. sess_refreshToken x = rt) (sessions d') = None"
    by (simp add: find_None_no_match)
  then have "\<forall>now' rnd'. refreshAccessToken cfg now' rnd' rt d' = Inr (None, d')"
    by (simp add: refreshAccessToken_def)
  with a n d' show ?thesis
    by (simp add: generateAccessToken_def jwt_sign_def generateRefreshToken_def)
qed

lemma example_sessions_unique: "refreshTokens_unique (sessions example_db)"
  by (simp add: refreshTokens_unique_def example_db_def example_session_def
      generateRefreshToken_def to_hex_inject)

lemma example_refresh:
  "refreshAccessToken example_cfg example_now (replicate 32 92)
     (generateRefreshToken (replicate 32 17)) example_db
   = Inr (Some (Signed ''development-secret-change-in-production''
                  \<lparr> jwt_userId = ''user_bob'', jwt_type = ''access'',
                    jwt_iat = 1700000000, jwt_exp = Some 1700000900 \<rparr>,
                to_hex (replicate 32 92)), example_db_rotated)"
  by (simp add: refreshAccessToken_def example_db_rotated_def example_db_def
      example_session_def refreshToken_taken_def generateRefreshToken_def to_hex_inject
      example_now_def Let_def generateAccessToken_def jwt_sign_def example_cfg_def)

theorem refresh_token_single_use_witness:
  "refreshTokens_unique (sessions example_db)
   \<and> refreshAccessToken example_cfg example_now (replicate 32 92)
        (generateRefreshToken (replicate 32 17)) example_db
      = Inr (Some (Signed ''development-secret-change-in-production''
                  \<lparr> jwt_userId = ''user_bob'', jwt_type = ''access'',
                    jwt_iat = 1700000000, jwt_exp = Some 1700000900 \<rparr>,
                   to_hex (replicate 32 92)), example_db_rotated)
   \<and> to_hex (replicate 32 92) \<noteq> generateRefreshToken (replicate 32 17)
   \<and> sess_token (hd (sessions example_db_rotated))
      = Signed ''development-secret-change-in-production''
                  \<lparr> jwt_userId = ''user_bob'', jwt_type = ''access'',
                    jwt_iat = 1700000000, jwt_exp = Some 1700000900 \<rparr>
   \<and> sess_refreshToken (hd (sessions example_db_rotated)) = to_hex (replicate 32 92)
   \<and> (\<forall>now' rnd'. refreshAccessToken example_cfg now' rnd'
          (generateRefreshToken (replicate 32 17)) example_db_rotated
        = Inr (None, example_db_rotated))"
proof -
  have m: "example_session ''sess_1'' ''user_bob'' 17 \<in> set (sessions example_db)"
    by (simp add: example_db_def)
  have r: "sess_refreshToken (example_session ''sess_1'' ''user_bob'' 17)
             = generateRefreshToken (replicate 32 17)"
    by (simp add: example_session_def)
  have n: "to_hex (replicate 32 92) \<noteq> generateRefreshToken (replicate 32 17)"
    by (simp add: generateRefreshToken_def to_hex_inject)
  have stored: "sess_token (hd (sessions example_db_rotated))
      = Signed ''development-secret-change-in-production''
                  \<lparr> jwt_userId = ''user_bob'', jwt_type = ''access'',
                    jwt_iat = 1700000000, jwt_exp = Some 1700000900 \<rparr>
   \<and> sess_refreshToken (hd (sessions example_db_rotated)) = to_hex (replicate 32 92)"
    by (simp add: example_db_rotated_def)
  show ?thesis
    using refresh_token_single_use[OF example_sessions_unique m r example_refresh n]
      example_sessions_unique example_refresh n stored by blast
qed

text \<open>
  The uniqueness of refresh tokens that the rotation theorem relies on is kept by the two
  operations that write refresh tokens.
\<close>

lemma createSession_keeps_unique:
  assumes "refreshTokens_unique (sessions d)"
    and "createSession cfg now sid rnd uid dev ip ua d = Inr (r, d1)"
  shows "refreshTokens_unique (sessions d1)"
  using assms
proof -
  have none: "\<forall>s\<in>set (sessions d). sess_refreshToken s \<noteq> generateRefreshToken rnd"
    using assms(2) by (auto simp: createSession_def Let_def list_ex_iff split: if_splits)
  then have "generateRefreshToken rnd \<notin> sess_refreshToken ` set (sessions d)" by auto
  moreover have "map sess_refreshToken (sessions d1)
                   = map sess_refreshToken (sessions d) @ [generateRefreshToken rnd]"
    using assms(2) by (auto simp: createSession_def Let_def split: if_splits)
  ultimately show ?thesis using assms(1) by (simp add: refreshTokens_unique_def)
qed

lemma distinct_overwrite_one:
  assumes "distinct (map g xs)" and "distinct (map k xs)"
    and "\<forall>y\<in>set xs. k y \<noteq> a \<longrightarrow> g y \<noteq> v"
  shows "distinct (map (\<lambda>y. if k y = a then v else g y) xs)"
  using assms
proof (induction xs)
  case Nil
  then show ?case by simp
next
  case (Cons x xs)
  then have IH: "distinct (map (\<lambda>y. if k y = a then v else g y) xs)" by simp
  show ?case
  proof (cases "k x = a")
    case True
    then have "\<forall>y\<in>set xs. k y \<noteq> a" using Cons.prems(2) by (auto simp: image_iff)
    then have "v \<notin> (\<lambda>y. if k y = a then v else g y) ` set xs"
      using Cons.prems(3) by auto
    with True IH show ?thesis by simp
  next
    case False
    then have "g x \<noteq> v" using Cons.prems(3) by simp
    moreover have "g x \<notin> g ` set xs" using Cons.prems(1) by simp
    ultimately have "g x \<notin> (\<lambda>y. if k y = a then v else g y) ` set xs" by auto
    with False IH show ?thesis by simp
  qed
qed

lemma refreshAccessToken_keeps_unique:
  assumes uniq: "refreshTokens_unique (sessions d)"
    and ids: "distinct (map sess_id (sessions d))"
    and ok: "refreshAccessToken cfg now rnd rt d = Inr (r, d')"
  shows "refreshTokens_unique (sessions d')"
proof (cases "find (\<lambda>s. sess_refreshToken s = rt) (sessions d)")
  case None
  with ok uniq show ?thesis by (simp add: refreshAccessToken_def)
next
  case (Some s)
  show ?thesis
  proof (cases "sess_expiresAt s < now
                \<or> refreshToken_taken (generateRefreshToken rnd) (sess_id s) (sessions d)")
    case True
    with ok uniq Some show ?thesis
      by (auto simp: refreshAccessToken_def Let_def split: if_splits)
  next
    case False
    then have free: "\<forall>y\<in>set (sessions d).
                       sess_id y \<noteq> sess_id s \<longrightarrow> sess_refreshToken y \<noteq> generateRefreshToken rnd"
      by (auto simp: refreshToken_taken_def list_ex_iff)
    have "map sess_refreshToken (sessions d')
            = map (\<lambda>y. if sess_id y = sess_id s then generateRefreshToken rnd
                        else sess_refreshToken y) (sessions d)"
      using ok Some False by (auto simp: refreshAccessToken_def Let_def)
    then show ?thesis
      using distinct_overwrite_one[OF _ ids free] uniq by (simp add: refreshTokens_unique_def)
  qed
qed

subsection \<open>Encryption of secrets at rest\<close>

lemma split_encrypt:
  "split CHR '':'' (encrypt L p k iv salt) =
     [to_hex salt, to_hex iv,
      to_hex (snd (gcm_encrypt L (pbkdf2Sync L k salt) iv (utf8_encode p))),
      to_hex (fst (gcm_encrypt L (pbkdf2Sync L k salt) iv (utf8_encode p)))]"
  by (simp add: encrypt_def Let_def split_field split_no_sep to_hex_no_colon)

lemma decrypt_encrypt:
  assumes "gcm_decrypt L (pbkdf2Sync L k salt) iv
             (snd (gcm_encrypt L (pbkdf2Sync L k salt) iv (utf8_encode p)))
             (fst (gcm_encrypt L (pbkdf2Sync L k salt) iv (utf8_encode p)))
           = Some (utf8_encode p)"
  shows "decrypt L (encrypt L p k iv salt) k = Inr p"
  using assms
  by (simp add: decrypt_def split_encrypt from_hex_to_hex utf8_roundtrip even_length_to_hex)

text \<open>
  C7. Whenever the AES-GCM primitive opens what it has just sealed (the contract of the
  cipher, asked only for the derived key, the initialisation vector and the text at
  hand), decrypting an encrypted text with the same key gives the text back; the blob
  splits at the colons into exactly four fields, the hexadecimal salt, initialisation
  vector, authentication tag and ciphertext, in this order, each made of hexadecimal
  digits only; and two encryptions of the same text under the same key whose random
  draws (initialisation vector, salt) differ give different blobs.
\<close>
theorem encrypt_decrypt_roundtrip:
  assumes aead:
    "gcm_decrypt L (pbkdf2Sync L k salt) iv
       (snd (gcm_encrypt L (pbkdf2Sync L k salt) iv (utf8_encode p)))
       (fst (gcm_encrypt L (pbkdf2Sync L k salt) iv (utf8_encode p)))
     = Some (utf8_encode p)"
  shows "decrypt L (encrypt L p k iv salt) k = Inr p
       \<and> split CHR '':'' (encrypt L p k iv salt) =
           [to_hex salt, to_hex iv,
            to_hex (snd (gcm_encrypt L (pbkdf2Sync L k salt) iv (utf8_encode p))),
            to_hex (fst (gcm_encrypt L (pbkdf2Sync L k salt) iv (utf8_encode p)))]
       \<and> list_all (list_all is_hex_char) (split CHR '':'' (encrypt L p k iv salt))
       \<and> ((iv', salt') \<noteq> (iv, salt) \<longrightarrow> encrypt L p k iv' salt' \<noteq> encrypt L p k iv salt)"
proof -
  have rt: "decrypt L (encrypt L p k iv salt) k = Inr p"
    using aead by (rule decrypt_encrypt)
  have hex: "list_all (list_all is_hex_char) (split CHR '':'' (encrypt L p k iv salt))"
    by (simp add: split_encrypt to_hex_all_hex)
  have diff: "encrypt L p k iv' salt' \<noteq> encrypt L p k iv salt" if "(iv', salt') \<noteq> (iv, salt)"
  proof
    assume "encrypt L p k iv' salt' = encrypt L p k iv salt"
    then have "split CHR '':'' (encrypt L p k iv' salt') = split CHR '':'' (encrypt L p k iv salt)"
      by simp
    then have "to_hex salt' = to_hex salt \<and> to_hex iv' = to_hex iv"
      by (simp add: split_encrypt)
    then show False using that by (simp add: to_hex_inject)
  qed
  from rt hex diff show ?thesis by (simp add: split_encrypt)
qed

lemma example_aead:
  "gcm_decrypt example_lib key iv (snd (gcm_encrypt example_lib key iv m))
     (fst (gcm_encrypt example_lib key iv m)) = Some m"
  by (simp add: example_lib_def comp_def)

theorem encrypt_decrypt_roundtrip_witness:
  "decrypt example_lib
     (encrypt example_lib example_secret (encryption_key example_cfg)
        (replicate 16 7) (replicate 64 9))
     (encryption_key example_cfg) = Inr example_secret
   \<and> encrypt example_lib example_secret (encryption_key example_cfg)
        (replicate 16 8) (replicate 64 9)
     \<noteq> encrypt example_lib example_secret (encryption_key example_cfg)
        (replicate 16 7) (replicate 64 9)"
  using encrypt_decrypt_roundtrip[of example_lib "encryption_key example_cfg" "replicate 64 9"
      "replicate 16 7" example_secret "replicate 16 8" "replicate 64 9", OF example_aead]
  by simp

subsection \<open>Temporary tokens are stateless\<close>

text \<open>
  C9. Verifying a temporary token returns the user identifier it carries exactly when
  the token is signed with the server's secret, has not reached its expiry and has the
  type tag \<open>mfa_temp\<close>, and returns null in every other case. A token issued by the
  service expires 600 seconds after its issue. Verification reads no state and changes
  none: the same token verifies at every moment before its expiry, however often.
\<close>
theorem verifyTemporaryToken_stateless:
  "(verifyTemporaryToken cfg t now = Some uid \<longleftrightarrow>
      (\<exists>p. t = Signed (jwt_secret cfg) p
          \<and> (case jwt_exp p of None \<Rightarrow> True | Some e \<Rightarrow> now div 1000 < e)
          \<and> jwt_type p = ''mfa_temp'' \<and> jwt_userId p = uid))
   \<and> (verifyTemporaryToken cfg t now = None \<longleftrightarrow>
      \<not> (\<exists>p. t = Signed (jwt_secret cfg) p
          \<and> (case jwt_exp p of None \<Rightarrow> True | Some e \<Rightarrow> now div 1000 < e)
          \<and> jwt_type p = ''mfa_temp''))
   \<and> verifyTemporaryToken cfg (createTemporaryToken cfg uid issued) now =
       (if now div 1000 < issued div 1000 + 600 then Some uid else None)
   \<and> (list_all (\<lambda>n. n div 1000 < issued div 1000 + 600) moments \<longrightarrow>
        map (verifyTemporaryToken cfg (createTemporaryToken cfg uid issued)) moments
          = replicate (length moments) (Some uid))"
proof -
  have a: "verifyTemporaryToken cfg t now = Some uid \<longleftrightarrow>
      (\<exists>p. t = Signed (jwt_secret cfg) p
          \<and> (case jwt_exp p of None \<Rightarrow> True | Some e \<Rightarrow> now div 1000 < e)
          \<and> jwt_type p = ''mfa_temp'' \<and> jwt_userId p = uid)"
    unfolding verifyTemporaryToken_def verifyTempToken_Some_iff by blast
  have b: "verifyTemporaryToken cfg t now = None \<longleftrightarrow>
      \<not> (\<exists>p. t = Signed (jwt_secret cfg) p
          \<and> (case jwt_exp p of None \<Rightarrow> True | Some e \<Rightarrow> now div 1000 < e)
          \<and> jwt_type p = ''mfa_temp'')"
    by (auto simp: verifyTemporaryToken_def verifyTempToken_def jwt_verify_def
        split: token.splits option.splits if_splits)
  have c: "verifyTemporaryToken cfg (createTemporaryToken cfg uid issued) n =
       (if n div 1000 < issued div 1000 + 600 then Some uid else None)" for n
    by (simp add: verifyTemporaryToken_def createTemporaryToken_def verifyTempToken_def
        createTempToken_def jwt_verify_def jwt_sign_def)
  have d: "list_all (\<lambda>n. n div 1000 < issued div 1000 + 600) moments \<Longrightarrow>
        map (verifyTemporaryToken cfg (createTemporaryToken cfg uid issued)) moments
          = replicate (length moments) (Some uid)"
    by (induction moments) (simp_all add: c)
  from a b c d show ?thesis by blast
qed

theorem verifyTemporaryToken_stateless_witness:
  "map (verifyTemporaryToken example_cfg (createTemporaryToken example_cfg ''user_alice'' example_now))
     [example_now, example_now + 1000, example_now + 599999]
   = [Some ''user_alice'', Some ''user_alice'', Some ''user_alice'']
   \<and> verifyTemporaryToken example_cfg (createTemporaryToken example_cfg ''user_alice'' example_now)
       (example_now + 600000) = None"
  using verifyTemporaryToken_stateless[of example_cfg
      "createTemporaryToken example_cfg ''user_alice'' example_now" "example_now + 600000"
      "''user_alice''" example_now "[example_now, example_now + 1000, example_now + 599999]"]
  by (simp add: example_now_def)

subsection \<open>Refresh and bearer authentication of a deactivated user\<close>

lemma authenticate_deleted:
  assumes "req_authorization req = Some (Bearer tok)"
    and "jwt_verify tok (jwt_secret cfg) now = Inr p"
    and "find (\<lambda>u. user_id u = jwt_userId p) (users d) = Some owner"
    and "user_deletedAt owner \<noteq> None"
  shows "authenticate cfg now req d = Responded (401, ErrorBody ''User not found'')"
  using assms by (simp add: authenticate_def)

text \<open>
  C10. Soft-deleting a user does not invalidate their sessions. Take a session table
  with unique refresh tokens, a session \<open>s\<close> of it that expires after \<open>now\<close>, and freshly
  drawn bytes whose hexadecimal text no other session holds as its refresh token. Then
  for every table of users, whatever the deletion marker of the session's owner, the
  refresh with the session's refresh token succeeds; it hands out an access token signed
  with the server's secret for the session's user, of type \<open>access\<close>, issued at \<open>now\<close>
  and expiring after the configured lifetime, and the hexadecimal text of the drawn bytes
  as refresh token; it stores both on the session's row and leaves the users as they
  are; and when the owner is marked deleted, the bearer-token middleware answers 401 to
  every token that verifies for that user.
\<close>
theorem refresh_ignores_soft_delete:
  assumes uniq: "refreshTokens_unique (sessions d)"
    and mem: "s \<in> set (sessions d)"
    and future: "now < sess_expiresAt s"
    and fresh: "\<not> refreshToken_taken (to_hex rnd) (sess_id s) (sessions d)"
  shows "\<forall>us. \<exists>d'.
           refreshAccessToken cfg now rnd (sess_refreshToken s) (d\<lparr>users := us\<rparr>)
             = Inr (Some (Signed (jwt_secret cfg)
                            \<lparr> jwt_userId = sess_userId s, jwt_type = ''access'',
                              jwt_iat = now div 1000,
                              jwt_exp = Some (now div 1000 + accessTokenExpiry cfg) \<rparr>,
                          to_hex rnd), d')
           \<and> users d' = us
           \<and> sessions d' =
               map (\<lambda>x. if sess_id x = sess_id s
                         then x\<lparr> sess_token :=
                                   Signed (jwt_secret cfg)
                            \<lparr> jwt_userId = sess_userId s, jwt_type = ''access'',
                              jwt_iat = now div 1000,
                              jwt_exp = Some (now div 1000 + accessTokenExpiry cfg) \<rparr>,
                                 sess_refreshToken := to_hex rnd,
                                 sess_lastUsedAt := now \<rparr>
                         else x) (sessions d)
           \<and> (\<forall>owner now' req tok p.
                 find (\<lambda>u. user_id u = sess_userId s) us = Some owner
                 \<and> user_deletedAt owner \<noteq> None
                 \<and> req_authorization req = Some (Bearer tok)
                 \<and> jwt_verify tok (jwt_secret cfg) now' = Inr p
                 \<and> jwt_userId p = sess_userId s
                 \<longrightarrow> authenticate cfg now' req d'
                       = Responded (401, ErrorBody ''User not found''))"
proof
  fix us
  let ?at = "Signed (jwt_secret cfg)
                            \<lparr> jwt_userId = sess_userId s, jwt_type = ''access'',
                              jwt_iat = now div 1000,
                              jwt_exp = Some (now div 1000 + accessTokenExpiry cfg) \<rparr>"
  let ?d' = "d\<lparr>users := us,
                sessions := map (\<lambda>x. if sess_id x = sess_id s
                     then x\<lparr> sess_token := ?at, sess_refreshToken := to_hex rnd,
                             sess_lastUsedAt := now \<rparr>
                     else x) (sessions d)\<rparr>"
  have f: "find (\<lambda>x. sess_refreshToken x = sess_refreshToken s) (sessions d) = Some s"
    using find_distinct_key[of sess_refreshToken "sessions d" s] uniq mem
    by (simp add: refreshTokens_unique_def)
  have r: "refreshAccessToken cfg now rnd (sess_refreshToken s) (d\<lparr>users := us\<rparr>)
             = Inr (Some (?at, to_hex rnd), ?d')"
    using f future fresh
    by (simp add: refreshAccessToken_def Let_def generateAccessToken_def jwt_sign_def
        generateRefreshToken_def)
  have a: "authenticate cfg now' req ?d' = Responded (401, ErrorBody ''User not found'')"
    if "find (\<lambda>u. user_id u = sess_userId s) us = Some owner"
      and "user_deletedAt owner \<noteq> None"
      and "req_authorization req = Some (Bearer tok)"
      and "jwt_verify tok (jwt_secret cfg) now' = Inr p"
      and "jwt_userId p = sess_userId s" for owner now' req tok p
    using that by (intro authenticate_deleted[where owner=owner and p=p and tok=tok]) simp_all
  show "\<exists>d'.
           refreshAccessToken cfg now rnd (sess_refreshToken s) (d\<lparr>users := us\<rparr>)
             = Inr (Some (Signed (jwt_secret cfg)
                            \<lparr> jwt_userId = sess_userId s, jwt_type = ''access'',
                              jwt_iat = now div 1000,
                              jwt_exp = Some (now div 1000 + accessTokenExpiry cfg) \<rparr>,
                          to_hex rnd), d')
           \<and> users d' = us
           \<and> sessions d' =
               map (\<lambda>x. if sess_id x = sess_id s
                         then x\<lparr> sess_token :=
                                   Signed (jwt_secret cfg)
                            \<lparr> jwt_userId = sess_userId s, jwt_type = ''access'',
                              jwt_iat = now div 1000,
                              jwt_exp = Some (now div 1000 + accessTokenExpiry cfg) \<rparr>,
                                 sess_refreshToken := to_hex rnd,
                                 sess_lastUsedAt := now \<rparr>
                         else x) (sessions d)
           \<and> (\<forall>owner now' req tok p.
                 find (\<lambda>u. user_id u = sess_userId s) us = Some owner
                 \<and> user_deletedAt owner \<noteq> None
                 \<and> req_authorization req = Some (Bearer tok)
                 \<and> jwt_verify tok (jwt_secret cfg) now' = Inr p
                 \<and> jwt_userId p = sess_userId s
                 \<longrightarrow> authenticate cfg now' req d'
                       = Responded (401, ErrorBody ''User not found''))"
    using r a by (intro exI[of _ ?d']) auto
qed

lemma example_fresh_token:
  "\<not> refreshToken_taken (to_hex (replicate 32 92)) ''sess_1'' (sessions example_db)"
  by (simp add: refreshToken_taken_def example_db_def example_session_def
      generateRefreshToken_def to_hex_inject)

theorem refresh_ignores_soft_delete_witness:
  "user_deletedAt bob \<noteq> None
   \<and> example_now < sess_expiresAt (example_session ''sess_1'' ''user_bob'' 17)
   \<and> refreshAccessToken example_cfg example_now (replicate 32 92)
        (generateRefreshToken (replicate 32 17)) example_db
      = Inr (Some (Signed ''development-secret-change-in-production''
                  \<lparr> jwt_userId = ''user_bob'', jwt_type = ''access'',
                    jwt_iat = 1700000000, jwt_exp = Some 1700000900 \<rparr>,
                   to_hex (replicate 32 92)), example_db_rotated)
   \<and> authenticate example_cfg (example_now + 1000)
        (example_request\<lparr>req_authorization :=
           Some (Bearer
             (Signed ''development-secret-change-in-production''
                  \<lparr> jwt_userId = ''user_bob'', jwt_type = ''access'',
                    jwt_iat = 1700000000, jwt_exp = Some 1700000900 \<rparr>))\<rparr>)
        example_db_rotated
      = Responded (401, ErrorBody ''User not found'')"
proof -
  let ?tok = "Signed ''development-secret-change-in-production''
                  \<lparr> jwt_userId = ''user_bob'', jwt_type = ''access'',
                    jwt_iat = 1700000000, jwt_exp = Some 1700000900 \<rparr>"
  have m: "example_session ''sess_1'' ''user_bob'' 17 \<in> set (sessions example_db)"
    by (simp add: example_db_def)
  have fu: "example_now < sess_expiresAt (example_session ''sess_1'' ''user_bob'' 17)"
    by (simp add: example_session_def example_now_def)
  have fr: "\<not> refreshToken_taken (to_hex (replicate 32 92))
              (sess_id (example_session ''sess_1'' ''user_bob'' 17)) (sessions example_db)"
    using example_fresh_token by (simp add: example_session_def)
  have del: "user_deletedAt bob \<noteq> None" by (simp add: bob_def)
  have own: "find (\<lambda>u. user_id u = sess_userId (example_session ''sess_1'' ''user_bob'' 17))
               (users example_db) = Some bob"
    by (simp add: example_db_def example_session_def alice_def bob_def)
  have ver: "jwt_verify ?tok (jwt_secret example_cfg) (example_now + 1000)
             = Inr \<lparr> jwt_userId = ''user_bob'', jwt_type = ''access'',
                     jwt_iat = 1700000000, jwt_exp = Some 1700000900 \<rparr>"
    by (simp add: jwt_verify_def example_cfg_def example_now_def)
  from refresh_ignores_soft_delete[OF example_sessions_unique m fu fr, of example_cfg]
  obtain d' where
    r: "refreshAccessToken example_cfg example_now (replicate 32 92)
          (sess_refreshToken (example_session ''sess_1'' ''user_bob'' 17))
          (example_db\<lparr>users := users example_db\<rparr>)
        = Inr (Some (Signed (jwt_secret example_cfg)
                       \<lparr> jwt_userId = sess_userId (example_session ''sess_1'' ''user_bob'' 17),
                         jwt_type = ''access'', jwt_iat = example_now div 1000,
                         jwt_exp = Some (example_now div 1000 + accessTokenExpiry example_cfg) \<rparr>,
                     to_hex (replicate 32 92)), d')"
    and a: "\<And>owner now' req tok p.
              find (\<lambda>u. user_id u = sess_userId (example_session ''sess_1'' ''user_bob'' 17))
                (users example_db) = Some owner
              \<and> user_deletedAt owner \<noteq> None
              \<and> req_authorization req = Some (Bearer tok)
              \<and> jwt_verify tok (jwt_secret example_cfg) now' = Inr p
              \<and> jwt_userId p = sess_userId (example_session ''sess_1'' ''user_bob'' 17)
              \<Longrightarrow> authenticate example_cfg now' req d'
                    = Responded (401, ErrorBody ''User not found'')"
    by blast
  from r have d': "d' = example_db_rotated"
    using example_refresh by (simp add: example_session_def)
  have "authenticate example_cfg (example_now + 1000)
        (example_request\<lparr>req_authorization := Some (Bearer ?tok)\<rparr>) d'
      = Responded (401, ErrorBody ''User not found'')"
    using own del ver
    by (intro a[where owner=bob and tok="?tok"
          and p="\<lparr> jwt_userId = ''user_bob'', jwt_type = ''access'',
                     jwt_iat = 1700000000, jwt_exp = Some 1700000900 \<rparr>"])
       (simp add: example_session_def)
  with d' del fu example_refresh show ?thesis by simp
qed

subsection \<open>Password reset confirmation\<close>

lemma verifyPasswordResetToken_owner:
  assumes mem: "u \<in> set (users d)"
    and hash: "user_passwordResetTokenHash u = Some (sha256_hex L token)"
    and expiry: "user_passwordResetTokenExpiry u = Some e" "now < e"
    and id: "user_id u \<noteq> []"
    and only: "\<forall>v\<in>set (users d).
                 user_passwordResetTokenHash v = Some (sha256_hex L token)
                 \<longrightarrow> user_id v = user_id u"
  shows "verifyPasswordResetToken L now token d = Some (user_id u)"
proof -
  let ?P = "\<lambda>u. user_passwordResetTokenHash u = Some (sha256_hex L token)
                 \<and> (case user_passwordResetTokenExpiry u of None \<Rightarrow> False | Some e \<Rightarrow> e > now)"
  have "?P u" using hash expiry by simp
  with mem have "find ?P (users d) \<noteq> None"
    by (auto simp: find_None_no_match)
  then obtain v where v: "find ?P (users d) = Some v" by auto
  then have "v \<in> set (users d)" "?P v" using find_Some_mem[OF v] by auto
  with only have "user_id v = user_id u" by blast
  with v id show ?thesis by (simp add: verifyPasswordResetToken_def Let_def)
qed

lemma update_user_users:
  "users (update_user uid f d) = map (\<lambda>u. if user_id u = uid then f u else u) (users d)"
  and update_user_sessions: "sessions (update_user uid f d) = sessions d"
  and update_user_devices: "devices (update_user uid f d) = devices d"
  by (simp_all add: update_user_def)

lemma revokeAllSessions_sessions:
  "sessions (revokeAllSessions uid d) = filter (\<lambda>s. sess_userId s \<noteq> uid) (sessions d)"
  and revokeAllSessions_users: "users (revokeAllSessions uid d) = users d"
  by (simp_all add: revokeAllSessions_def)

text \<open>
  C3. Password reset confirmation with a valid, unexpired reset token. Let \<open>u\<close> be a
  stored user whose reset-token hash is the hash of the submitted token and whose expiry
  lies after \<open>now\<close>, the only user the token belongs to. Then both handlers (the route,
  for a request that passed validation, and the controller) answer 200 and leave the
  same database, in which the user is still present, every row of the user carries the
  hash of the new password and neither reset-token hash nor expiry, and no session of
  the user remains: the sessions are exactly the former sessions of the other users.
\<close>
theorem password_reset_confirm_revokes_sessions:
  assumes mem: "u \<in> set (users d)"
    and hash: "user_passwordResetTokenHash u = Some (sha256_hex L token)"
    and expiry: "user_passwordResetTokenExpiry u = Some e" "now < e"
    and id: "user_id u \<noteq> []"
    and only: "\<forall>v\<in>set (users d).
                 user_passwordResetTokenHash v = Some (sha256_hex L token)
                 \<longrightarrow> user_id v = user_id u"
    and valid: "req_validationErrors req = []"
  shows "\<exists>d'. route_password_reset_confirm L now fr req token password d
                = ((200, MessageBody ''Password reset successfully''), d')
            \<and> controller_confirmPasswordReset L now fr token password d
                = ((200, MessageBody
                      ''Password reset successful. Please login with your new password.''), d')
            \<and> (\<exists>v\<in>set (users d'). user_id v = user_id u)
            \<and> (\<forall>v\<in>set (users d'). user_id v = user_id u \<longrightarrow>
                  user_passwordHash v = Some (hashPassword L password (fresh_salt fr))
                  \<and> user_passwordResetTokenHash v = None
                  \<and> user_passwordResetTokenExpiry v = None)
            \<and> filter (\<lambda>s. sess_userId s = user_id u) (sessions d') = []
            \<and> sessions d' = filter (\<lambda>s. sess_userId s \<noteq> user_id u) (sessions d)"
proof -
  let ?d' = "revokeAllSessions (user_id u)
               (update_user (user_id u)
                  (\<lambda>u. u\<lparr> user_passwordHash := Some (hashPassword L password (fresh_salt fr)),
                           user_passwordResetTokenHash := None,
                           user_passwordResetTokenExpiry := None \<rparr>) d)"
  have v: "verifyPasswordResetToken L now token d = Some (user_id u)"
    using mem hash expiry id only by (rule verifyPasswordResetToken_owner)
  have r: "route_password_reset_confirm L now fr req token password d
             = ((200, MessageBody ''Password reset successfully''), ?d')"
    using v valid by (simp add: route_password_reset_confirm_def)
  have c: "controller_confirmPasswordReset L now fr token password d
             = ((200, MessageBody
                   ''Password reset successful. Please login with your new password.''), ?d')"
    using v by (simp add: controller_confirmPasswordReset_def)
  have ex: "\<exists>v\<in>set (users ?d'). user_id v = user_id u"
  proof -
    let ?f = "\<lambda>v. if user_id v = user_id u
                  then v\<lparr> user_passwordHash := Some (hashPassword L password (fresh_salt fr)),
                          user_passwordResetTokenHash := None,
                          user_passwordResetTokenExpiry := None \<rparr>
                  else v"
    have "?f u \<in> set (users ?d')"
      using mem unfolding revokeAllSessions_users update_user_users by (simp del: if_split)
    moreover have "user_id (?f u) = user_id u" by simp
    ultimately show ?thesis by blast
  qed
  have all: "\<forall>v\<in>set (users ?d'). user_id v = user_id u \<longrightarrow>
                  user_passwordHash v = Some (hashPassword L password (fresh_salt fr))
                  \<and> user_passwordResetTokenHash v = None
                  \<and> user_passwordResetTokenExpiry v = None"
    by (auto simp: revokeAllSessions_users update_user_users split: if_splits)
  have s: "sessions ?d' = filter (\<lambda>s. sess_userId s \<noteq> user_id u) (sessions d)"
    by (simp add: revokeAllSessions_sessions update_user_sessions)
  have z: "filter (\<lambda>s. sess_userId s = user_id u) (sessions ?d') = []"
    by (simp add: s filter_empty_conv)
  from r c ex all s z show ?thesis by blast
qed


theorem password_reset_confirm_revokes_sessions_witness:
  "carol \<in> set (users example_db)
   \<and> user_passwordResetTokenHash carol = Some (sha256_hex example_lib ''reset-token-1'')
   \<and> user_passwordResetTokenExpiry carol = Some 1700000600000
   \<and> example_now < 1700000600000
   \<and> length (filter (\<lambda>s. sess_userId s = ''user_carol'') (sessions example_db)) = 2
   \<and> fst (route_password_reset_confirm example_lib example_now example_fresh example_request
             ''reset-token-1'' ''NewPassw0rd1'' example_db)
      = (200, MessageBody ''Password reset successfully'')
   \<and> sessions (snd (route_password_reset_confirm example_lib example_now example_fresh
                       example_request ''reset-token-1'' ''NewPassw0rd1'' example_db))
      = [example_session ''sess_1'' ''user_bob'' 17]
   \<and> sessions (snd (controller_confirmPasswordReset example_lib example_now example_fresh
                       ''reset-token-1'' ''NewPassw0rd1'' example_db))
      = [example_session ''sess_1'' ''user_bob'' 17]"
proof -
  have mem: "carol \<in> set (users example_db)" by (simp add: example_db_def)
  have hash: "user_passwordResetTokenHash carol = Some (sha256_hex example_lib ''reset-token-1'')"
    by (simp add: carol_def example_lib_def)
  have expiry: "user_passwordResetTokenExpiry carol = Some 1700000600000"
    by (simp add: carol_def)
  have lt: "example_now < 1700000600000" by (simp add: example_now_def)
  have id: "user_id carol \<noteq> []" by (simp add: carol_def)
  have only: "\<forall>v\<in>set (users example_db).
                 user_passwordResetTokenHash v = Some (sha256_hex example_lib ''reset-token-1'')
                 \<longrightarrow> user_id v = user_id carol"
    by (simp add: example_db_def alice_def bob_def)
  have valid: "req_validationErrors example_request = []" by (simp add: example_request_def)
  have two: "length (filter (\<lambda>s. sess_userId s = ''user_carol'') (sessions example_db)) = 2"
    by (simp add: example_db_def example_session_def)
  from password_reset_confirm_revokes_sessions[OF mem hash expiry lt id only valid,
      of example_fresh "''NewPassw0rd1''"]
  obtain d' where
    r: "route_password_reset_confirm example_lib example_now example_fresh example_request
          ''reset-token-1'' ''NewPassw0rd1'' example_db
        = ((200, MessageBody ''Password reset successfully''), d')"
    and c: "controller_confirmPasswordReset example_lib example_now example_fresh
          ''reset-token-1'' ''NewPassw0rd1'' example_db
        = ((200, MessageBody
              ''Password reset successful. Please login with your new password.''), d')"
    and s: "sessions d' = filter (\<lambda>s. sess_userId s \<noteq> user_id carol) (sessions example_db)"
    by blast
  have "sessions d' = [example_session ''sess_1'' ''user_bob'' 17]"
    unfolding s by (simp add: example_db_def example_session_def carol_def)
  with r c mem hash expiry lt two show ?thesis by simp
qed

subsection \<open>Login of a user with MFA enabled\<close>

lemma truthy_Some: "truthy (Some h) \<longleftrightarrow> h \<noteq> []"
  and or_else_Some: "h \<noteq> [] \<Longrightarrow> or_else (Some h) dflt = h"
  by (simp_all add: truthy_def or_else_def)

text \<open>
  C2, as amended. Let \<open>u\<close> be the user stored under the (normalised) email of a login
  request, with MFA enabled. Then neither login handler changes the database (so no
  session row is created) and neither answers with an access token or a refresh token,
  whatever the password and whether or not the account is deactivated. If moreover the
  request passed validation, the account is not deactivated and the password verifies
  against the stored hash, both handlers answer 200 with exactly
  \<open>{requiresMfa: true, tempToken}\<close>, the temporary token being the one issued for \<open>u\<close>
  at that moment.
\<close>
theorem mfa_login_issues_no_session:
  assumes found: "find (\<lambda>x. user_email x = email) (users d) = Some u"
    and lower: "toLowerCase email' = email"
    and mfa: "user_mfaEnabled u"
  shows "snd (route_login L cfg now fr req email password di d) = d
       \<and> \<not> carries_tokens (snd (fst (route_login L cfg now fr req email password di d)))
       \<and> snd (controller_login L cfg now fr req email' password di d) = d
       \<and> \<not> carries_tokens (snd (fst (controller_login L cfg now fr req email' password di d)))
       \<and> (req_validationErrors req = [] \<and> user_deletedAt u = None
            \<and> user_passwordHash u = Some h \<and> h \<noteq> [] \<and> verifyPassword L password h
          \<longrightarrow> route_login L cfg now fr req email password di d
                = ((200, MfaRequired (createTempToken cfg (user_id u) now)), d)
              \<and> controller_login L cfg now fr req email' password di d
                = ((200, MfaRequired (createTempToken cfg (user_id u) now)), d))"
proof -
  have r: "snd (route_login L cfg now fr req email password di d) = d
       \<and> \<not> carries_tokens (snd (fst (route_login L cfg now fr req email password di d)))"
    using found mfa by (simp add: route_login_def)
  have c: "snd (controller_login L cfg now fr req email' password di d) = d
       \<and> \<not> carries_tokens (snd (fst (controller_login L cfg now fr req email' password di d)))"
    using found lower mfa by (simp add: controller_login_def)
  have p: "route_login L cfg now fr req email password di d
                = ((200, MfaRequired (createTempToken cfg (user_id u) now)), d)
              \<and> controller_login L cfg now fr req email' password di d
                = ((200, MfaRequired (createTempToken cfg (user_id u) now)), d)"
    if "req_validationErrors req = []" "user_deletedAt u = None"
      "user_passwordHash u = Some h" "h \<noteq> []" "verifyPassword L password h"
    using that found lower mfa
    by (simp add: route_login_def controller_login_def truthy_Some or_else_Some
        createTemporaryToken_def)
  from r c p show ?thesis by blast
qed

lemma example_find_alice:
  "find (\<lambda>x. user_email x = ''alice@x.com'') (users example_db) = Some alice"
  by (simp add: example_db_def alice_def)

lemma example_find_bob:
  "find (\<lambda>x. user_email x = ''bob@x.com'') (users example_db) = Some bob"
  by (simp add: example_db_def alice_def bob_def)

lemma example_lower_alice: "toLowerCase ''Alice@X.com'' = ''alice@x.com''"
  by code_simp

lemma example_lower_bob: "toLowerCase ''bob@x.com'' = ''bob@x.com''"
  by code_simp

theorem mfa_login_issues_no_session_witness:
  "user_mfaEnabled alice \<and> user_deletedAt alice = None
   \<and> verifyPassword example_lib ''Passw0rd!'' ''hash(Passw0rd!)''
   \<and> route_login example_lib example_cfg example_now example_fresh example_request
        ''alice@x.com'' ''Passw0rd!'' None example_db
      = ((200, MfaRequired (createTempToken example_cfg ''user_alice'' example_now)), example_db)
   \<and> controller_login example_lib example_cfg example_now example_fresh example_request
        ''Alice@X.com'' ''Passw0rd!'' None example_db
      = ((200, MfaRequired (createTempToken example_cfg ''user_alice'' example_now)), example_db)"
proof -
  have mfa: "user_mfaEnabled alice" by (simp add: alice_def)
  have h: "req_validationErrors example_request = [] \<and> user_deletedAt alice = None
            \<and> user_passwordHash alice = Some ''hash(Passw0rd!)'' \<and> ''hash(Passw0rd!)'' \<noteq> []
            \<and> verifyPassword example_lib ''Passw0rd!'' ''hash(Passw0rd!)''"
    by (simp add: example_request_def alice_def example_lib_def)
  have uid: "user_id alice = ''user_alice''" by (simp add: alice_def)
  from mfa_login_issues_no_session[OF example_find_alice example_lower_alice mfa,
      of example_lib example_cfg example_now example_fresh example_request "''Passw0rd!''" None
         "''hash(Passw0rd!)''"] h uid mfa
  show ?thesis by simp
qed

text \<open>
  C2, as stated, fails for a deactivated account: Bob has MFA enabled and submits his
  correct password, and the controller answers 401 \<open>Account has been deactivated\<close>, the
  route 401 \<open>Invalid email or password\<close>; neither answers \<open>{requiresMfa, tempToken}\<close>.
\<close>
theorem mfa_login_deactivated_counterexample:
  "user_mfaEnabled bob
   \<and> bob \<in> set (users example_db) \<and> user_email bob = ''bob@x.com''
   \<and> user_passwordHash bob = Some ''hash(Secr3tBob)''
   \<and> verifyPassword example_lib ''Secr3tBob'' ''hash(Secr3tBob)''
   \<and> controller_login example_lib example_cfg example_now example_fresh example_request
        ''bob@x.com'' ''Secr3tBob'' None example_db
      = ((401, ErrorBody ''Account has been deactivated''), example_db)
   \<and> route_login example_lib example_cfg example_now example_fresh example_request
        ''bob@x.com'' ''Secr3tBob'' None example_db
      = ((401, ErrorBody ''Invalid email or password''), example_db)"
proof -
  have a: "user_mfaEnabled bob \<and> user_passwordHash bob = Some ''hash(Secr3tBob)''
           \<and> user_deletedAt bob \<noteq> None \<and> user_email bob = ''bob@x.com''"
    by (simp add: bob_def)
  have m: "bob \<in> set (users example_db)" by (simp add: example_db_def)
  have v: "verifyPassword example_lib ''Secr3tBob'' ''hash(Secr3tBob)''"
    by (simp add: example_lib_def)
  have c: "controller_login example_lib example_cfg example_now example_fresh example_request
        ''bob@x.com'' ''Secr3tBob'' None example_db
      = ((401, ErrorBody ''Account has been deactivated''), example_db)"
    using a v example_find_bob
    by (simp add: controller_login_def example_lower_bob example_request_def truthy_Some
        or_else_Some)
  have r: "route_login example_lib example_cfg example_now example_fresh example_request
        ''bob@x.com'' ''Secr3tBob'' None example_db
      = ((401, ErrorBody ''Invalid email or password''), example_db)"
    using a example_find_bob by (simp add: route_login_def example_request_def)
  from a v c r m show ?thesis by simp
qed

subsection \<open>Backup codes\<close>

lemma indexOf_bounds: "- 1 \<le> indexOf xs x"
  by (induction xs) (auto simp: Let_def)

lemma indexOf_missing: "indexOf xs x = - 1 \<longleftrightarrow> x \<notin> set xs"
proof (induction xs)
  case Nil
  then show ?case by simp
next
  case (Cons y ys)
  have "indexOf ys x + 1 \<noteq> - 1" using indexOf_bounds[of ys x] by arith
  with Cons show ?case by (auto simp: Let_def)
qed

lemma splice1_indexOf: "x \<in> set xs \<Longrightarrow> splice1 xs (indexOf xs x) = remove1 x xs"
proof (induction xs)
  case Nil
  then show ?case by simp
next
  case (Cons y ys)
  show ?case
  proof (cases "y = x")
    case True
    then show ?thesis by (simp add: splice1_def)
  next
    case False
    with Cons.prems have mem: "x \<in> set ys" by simp
    then have ne: "indexOf ys x \<noteq> - 1" by (simp add: indexOf_missing)
    then have nn: "0 \<le> indexOf ys x" using indexOf_bounds[of ys x] by arith
    have "splice1 (y # ys) (indexOf ys x + 1) = y # splice1 ys (indexOf ys x)"
      using nn by (simp add: splice1_def nat_add_distrib)
    with False ne Cons.IH[OF mem] show ?thesis by (simp add: Let_def)
  qed
qed

lemma find_map_same_key:
  "(\<And>x. P (f x) = P x) \<Longrightarrow> find P (map f xs) = map_option f (find P xs)"
  by (induction xs) auto

lemma createSession_users:
  "createSession cfg now sid rnd uid dev ip ua d = Inr (r, d1) \<Longrightarrow> users d1 = users d"
  by (auto simp: createSession_def Let_def split: if_splits)

lemma recordDevice_users: "users (recordDevice now uid dev di req d) = users d"
  by (simp add: recordDevice_def Let_def)

lemma check_backup_code_Some:
  assumes "user_backupCodes user = Some codes"
  shows "check_backup_code user code d =
           (if code \<in> set codes
            then Some (update_user (user_id user)
                         (\<lambda>u. u\<lparr>user_backupCodes := Some (remove1 code codes)\<rparr>) d)
            else None)"
  using assms by (simp add: check_backup_code_def Let_def indexOf_missing splice1_indexOf)

lemma verifyMfa_backup_path:
  assumes tok: "verifyTemporaryToken cfg tempToken now = Some uid"
    and user: "find (\<lambda>u. user_id u = uid) (users d) = Some user"
    and codes: "user_backupCodes user = Some codes"
    and secret: "decrypt L (or_else (user_mfaSecret user) []) (encryption_key cfg) = Inr secret"
    and via_backup: "\<not> totp_verify L secret code 1 now"
    and ok: "fst (fst (controller_verifyMfa L cfg now fr req tempToken code di d)) = 200"
  shows "code \<in> set codes \<and> uid \<noteq> [] \<and> truthy (user_mfaSecret user)
       \<and> users (snd (controller_verifyMfa L cfg now fr req tempToken code di d))
           = map (\<lambda>u. if user_id u = uid then u\<lparr>user_lastLoginAt := Some now\<rparr> else u)
               (map (\<lambda>u. if user_id u = uid
                          then u\<lparr>user_backupCodes := Some (remove1 code codes)\<rparr> else u)
                  (users d))"
proof -
  have uid: "user_id user = uid" using find_Some_mem[OF user] by simp
  have ne: "uid \<noteq> []" using ok tok
    by (auto simp: controller_verifyMfa_def truthy_Some split: if_splits)
  have ms: "truthy (user_mfaSecret user)" using ok tok user ne
    by (auto simp: controller_verifyMfa_def truthy_Some or_else_Some split: if_splits)
  have mem: "code \<in> set codes"
    using ok tok user ne ms secret via_backup
    by (auto simp: controller_verifyMfa_def truthy_Some or_else_Some
        check_backup_code_Some[OF codes] split: if_splits)
  let ?d0 = "update_user uid (\<lambda>u. u\<lparr>user_backupCodes := Some (remove1 code codes)\<rparr>) d"
  obtain r d1 where cs: "createSession cfg now (fresh_sessionId fr) (fresh_refresh fr) uid
        (or_else (req_deviceIdHeader req) (fresh_uuid fr))
        (Some (or_else (req_ip req) ''unknown''))
        (or_else (req_userAgent req) ''unknown'') ?d0 = Inr (r, d1)"
    using ok tok user ne ms secret via_backup mem uid
    by (cases "createSession cfg now (fresh_sessionId fr) (fresh_refresh fr) uid
        (or_else (req_deviceIdHeader req) (fresh_uuid fr))
        (Some (or_else (req_ip req) ''unknown''))
        (or_else (req_userAgent req) ''unknown'') ?d0")
      (auto simp: controller_verifyMfa_def truthy_Some or_else_Some Let_def
        check_backup_code_Some[OF codes])
  have "users (snd (controller_verifyMfa L cfg now fr req tempToken code di d))
          = map (\<lambda>u. if user_id u = uid then u\<lparr>user_lastLoginAt := Some now\<rparr> else u)
              (users d1)"
    using tok user ne ms secret via_backup mem uid cs
    by (auto simp: controller_verifyMfa_def truthy_Some or_else_Some Let_def
        check_backup_code_Some[OF codes] update_user_users recordDevice_users
        split: prod.splits)
  moreover have "users d1 = users ?d0" using cs by (rule createSession_users)
  ultimately show ?thesis using mem ne ms by (simp add: update_user_users)
qed


text \<open>
  C5. Each backup code is usable exactly once. Let the temporary token resolve to a
  stored user whose backup codes are the duplicate-free list \<open>codes\<close>, let the submitted
  code not be a valid one-time code (so that the verification goes by the backup codes),
  and let \<open>verifyMfa\<close> answer 200, leaving the database \<open>d'\<close>. Then the submitted code
  was one of the stored codes; the user's stored codes in \<open>d'\<close> are the former ones with
  exactly that code removed (one code fewer, every other code still stored and still
  accepted by the backup-code check); and every later submission of the same code for
  this user, as long as it is not a valid one-time code then, is answered
  401 \<open>Invalid MFA code\<close> and changes nothing.
\<close>
theorem backup_code_single_use:
  assumes tok: "verifyTemporaryToken cfg tempToken now = Some uid"
    and user: "find (\<lambda>u. user_id u = uid) (users d) = Some user"
    and codes: "user_backupCodes user = Some codes"
    and dist: "distinct codes"
    and secret: "decrypt L (or_else (user_mfaSecret user) []) (encryption_key cfg) = Inr secret"
    and via_backup: "\<not> totp_verify L secret code 1 now"
    and ok: "fst (fst (controller_verifyMfa L cfg now fr req tempToken code di d)) = 200"
    and after: "d' = snd (controller_verifyMfa L cfg now fr req tempToken code di d)"
  shows "code \<in> set codes
       \<and> (\<exists>v. find (\<lambda>u. user_id u = uid) (users d') = Some v
              \<and> user_backupCodes v = Some (remove1 code codes)
              \<and> (\<forall>c\<in>set codes. c \<noteq> code \<longrightarrow> check_backup_code v c d' \<noteq> None))
       \<and> set (remove1 code codes) = set codes - {code}
       \<and> length (remove1 code codes) + 1 = length codes
       \<and> (\<forall>now2 fr2 req2 tok2 di2.
             verifyTemporaryToken cfg tok2 now2 = Some uid
             \<and> \<not> totp_verify L secret code 1 now2
             \<longrightarrow> controller_verifyMfa L cfg now2 fr2 req2 tok2 code di2 d'
                   = ((401, ErrorBody ''Invalid MFA code''), d'))"
proof -
  note path = verifyMfa_backup_path[OF tok user codes secret via_backup ok]
  have mem: "code \<in> set codes" and ne: "uid \<noteq> []" and ms: "truthy (user_mfaSecret user)"
    using path by simp_all
  let ?v = "user\<lparr>user_backupCodes := Some (remove1 code codes), user_lastLoginAt := Some now\<rparr>"
  have us: "users d' =
      map ((\<lambda>u. if user_id u = uid then u\<lparr>user_lastLoginAt := Some now\<rparr> else u)
           \<circ> (\<lambda>u. if user_id u = uid
                    then u\<lparr>user_backupCodes := Some (remove1 code codes)\<rparr> else u))
        (users d)"
    using path after by simp
  have uid: "user_id user = uid" using find_Some_mem[OF user] by simp
  have f: "find (\<lambda>u. user_id u = uid) (users d') = Some ?v"
    unfolding us by (subst find_map_same_key) (simp_all add: user uid)
  have left: "user_backupCodes ?v = Some (remove1 code codes)" by simp
  have rest: "\<forall>c\<in>set codes. c \<noteq> code \<longrightarrow> check_backup_code ?v c d' \<noteq> None"
    by (simp add: check_backup_code_Some[OF left])
  have s: "set (remove1 code codes) = set codes - {code}"
    using dist by (rule set_remove1_eq)
  have l: "length (remove1 code codes) + 1 = length codes"
  proof -
    have "0 < length codes" using mem by (cases codes) auto
    then show ?thesis using mem by (simp add: length_remove1)
  qed
  have gone: "code \<notin> set (remove1 code codes)" using s by simp
  have again: "controller_verifyMfa L cfg now2 fr2 req2 tok2 code di2 d'
                   = ((401, ErrorBody ''Invalid MFA code''), d')"
    if "verifyTemporaryToken cfg tok2 now2 = Some uid" "\<not> totp_verify L secret code 1 now2"
    for now2 fr2 req2 tok2 di2
    using that f ne ms secret gone
    by (simp add: controller_verifyMfa_def truthy_Some or_else_Some
        check_backup_code_Some[of ?v "remove1 code codes"])
  from mem f left rest s l again show ?thesis by blast
qed


lemma example_secret_stored:
  "example_encrypted_secret \<noteq> []
   \<and> decrypt example_lib example_encrypted_secret (encryption_key example_cfg)
       = Inr example_secret"
  using decrypt_encrypt[of example_lib "encryption_key example_cfg" "replicate 64 9"
      "replicate 16 7" example_secret, OF example_aead]
  by (simp add: example_encrypted_secret_def encrypt_def Let_def)

lemma example_alice_by_id:
  "find (\<lambda>u. user_id u = ''user_alice'') (users example_db) = Some alice"
  by (simp add: example_db_def alice_def)

lemma example_temp_token:
  "verifyTemporaryToken example_cfg
     (createTemporaryToken example_cfg ''user_alice'' (example_now - 60000)) example_now
   = Some ''user_alice''
   \<and> verifyTemporaryToken example_cfg
     (createTemporaryToken example_cfg ''user_alice'' (example_now - 60000)) (example_now + 30000)
   = Some ''user_alice''"
  by (simp add: verifyTemporaryToken_def createTemporaryToken_def verifyTempToken_def
      createTempToken_def jwt_verify_def jwt_sign_def example_now_def)

lemma example_not_totp:
  "\<not> totp_verify example_lib example_secret ''0F9E8D7C'' 1 example_now
   \<and> \<not> totp_verify example_lib example_secret ''0F9E8D7C'' 1 (example_now + 30000)"
  by (simp add: totp_verify_def example_lib_def example_now_def Let_def upto.simps
      decimal6_def hex_digit_def)


lemma verifyMfa_backup_accepts:
  assumes tok: "verifyTemporaryToken cfg tempToken now = Some uid" and ne: "uid \<noteq> []"
    and user: "find (\<lambda>u. user_id u = uid) (users d) = Some user"
    and enc: "user_mfaSecret user = Some enc" "enc \<noteq> []"
    and secret: "decrypt L enc (encryption_key cfg) = Inr secret"
    and via_backup: "\<not> totp_verify L secret code 1 now"
    and codes: "user_backupCodes user = Some codes" "code \<in> set codes"
    and fresh: "\<not> list_ex (\<lambda>s. sess_refreshToken s = generateRefreshToken (fresh_refresh fr))
                    (sessions d)"
  shows "fst (controller_verifyMfa L cfg now fr req tempToken code di d)
         = (200, UserWithTokens ''MFA verification successful'' (mfa_view user)
                   (generateAccessToken cfg (user_id user) now)
                   (generateRefreshToken (fresh_refresh fr)))"
  using assms
  by (simp add: controller_verifyMfa_def truthy_Some or_else_Some
      check_backup_code_Some[OF codes(1)] createSession_def Let_def update_user_sessions)

lemma example_backup_login:
  "fst (controller_verifyMfa example_lib example_cfg example_now example_fresh example_request
          (createTemporaryToken example_cfg ''user_alice'' (example_now - 60000))
          ''0F9E8D7C'' None example_db)
   = (200, UserWithTokens ''MFA verification successful'' (mfa_view alice)
             (generateAccessToken example_cfg ''user_alice'' example_now)
             (generateRefreshToken (replicate 32 92)))"
proof -
  have enc: "user_mfaSecret alice = Some example_encrypted_secret"
    and codes: "user_backupCodes alice = Some [''A1B2C3D4'', ''0F9E8D7C'', ''DEADBEEF'']"
    and uid: "user_id alice = ''user_alice''"
    by (simp_all add: alice_def)
  have fresh: "\<not> list_ex (\<lambda>s. sess_refreshToken s
                  = generateRefreshToken (fresh_refresh example_fresh)) (sessions example_db)"
    by (simp add: example_db_def example_session_def example_fresh_def
        generateRefreshToken_def to_hex_inject)
  have "fst (controller_verifyMfa example_lib example_cfg example_now example_fresh
          example_request
          (createTemporaryToken example_cfg ''user_alice'' (example_now - 60000))
          ''0F9E8D7C'' None example_db)
        = (200, UserWithTokens ''MFA verification successful'' (mfa_view alice)
             (generateAccessToken example_cfg (user_id alice) example_now)
             (generateRefreshToken (fresh_refresh example_fresh)))"
    using example_temp_token example_alice_by_id enc example_secret_stored example_not_totp
      codes fresh
    by (intro verifyMfa_backup_accepts[where uid="''user_alice''" and secret=example_secret
          and enc=example_encrypted_secret
          and codes="[''A1B2C3D4'', ''0F9E8D7C'', ''DEADBEEF'']"]) simp_all
  then show ?thesis by (simp add: uid example_fresh_def)
qed

theorem backup_code_single_use_witness:
  "distinct [''A1B2C3D4'', ''0F9E8D7C'', ''DEADBEEF'']
   \<and> user_backupCodes alice = Some [''A1B2C3D4'', ''0F9E8D7C'', ''DEADBEEF'']
   \<and> \<not> totp_verify example_lib example_secret ''0F9E8D7C'' 1 example_now
   \<and> fst (fst (controller_verifyMfa example_lib example_cfg example_now example_fresh
                 example_request
                 (createTemporaryToken example_cfg ''user_alice'' (example_now - 60000))
                 ''0F9E8D7C'' None example_db)) = 200
   \<and> map user_backupCodes
        (users (snd (controller_verifyMfa example_lib example_cfg example_now example_fresh
                 example_request
                 (createTemporaryToken example_cfg ''user_alice'' (example_now - 60000))
                 ''0F9E8D7C'' None example_db)))
      = [Some [''A1B2C3D4'', ''DEADBEEF''], None, None]
   \<and> fst (controller_verifyMfa example_lib example_cfg (example_now + 30000) example_fresh
             example_request
             (createTemporaryToken example_cfg ''user_alice'' (example_now - 60000))
             ''0F9E8D7C'' None
             (snd (controller_verifyMfa example_lib example_cfg example_now example_fresh
                 example_request
                 (createTemporaryToken example_cfg ''user_alice'' (example_now - 60000))
                 ''0F9E8D7C'' None example_db)))
      = (401, ErrorBody ''Invalid MFA code'')"
proof -
  let ?tok = "createTemporaryToken example_cfg ''user_alice'' (example_now - 60000)"
  let ?first = "controller_verifyMfa example_lib example_cfg example_now example_fresh
                 example_request ?tok ''0F9E8D7C'' None example_db"
  have codes: "user_backupCodes alice = Some [''A1B2C3D4'', ''0F9E8D7C'', ''DEADBEEF'']"
    by (simp add: alice_def)
  have dist: "distinct [''A1B2C3D4'', ''0F9E8D7C'', ''DEADBEEF'']" by simp
  have secret: "decrypt example_lib (or_else (user_mfaSecret alice) [])
                  (encryption_key example_cfg) = Inr example_secret"
    using example_secret_stored by (simp add: alice_def or_else_Some)
  have ok: "fst (fst ?first) = 200" by (simp add: example_backup_login)
  note inst = backup_code_single_use[OF conjunct1[OF example_temp_token] example_alice_by_id
      codes dist secret conjunct1[OF example_not_totp] ok refl]
  from inst obtain v where
    f: "find (\<lambda>u. user_id u = ''user_alice'') (users (snd ?first)) = Some v"
    and left: "user_backupCodes v = Some (remove1 ''0F9E8D7C'' [''A1B2C3D4'', ''0F9E8D7C'', ''DEADBEEF''])"
    by blast
  from inst have again: "controller_verifyMfa example_lib example_cfg (example_now + 30000)
             example_fresh example_request ?tok ''0F9E8D7C'' None (snd ?first)
          = ((401, ErrorBody ''Invalid MFA code''), snd ?first)"
    using example_temp_token example_not_totp by blast
  have us: "users (snd ?first)
       = map (\<lambda>u. if user_id u = ''user_alice'' then u\<lparr>user_lastLoginAt := Some example_now\<rparr> else u)
               (map (\<lambda>u. if user_id u = ''user_alice''
                          then u\<lparr>user_backupCodes := Some (remove1 ''0F9E8D7C''
                                   [''A1B2C3D4'', ''0F9E8D7C'', ''DEADBEEF''])\<rparr> else u)
                  (users example_db))"
    using verifyMfa_backup_path[OF conjunct1[OF example_temp_token] example_alice_by_id
      codes secret conjunct1[OF example_not_totp] ok] by simp
  have stored: "map user_backupCodes (users (snd ?first))
                 = [Some [''A1B2C3D4'', ''DEADBEEF''], None, None]"
    unfolding us by (simp add: example_db_def alice_def bob_def carol_def)
  from dist codes example_not_totp ok stored again show ?thesis by simp
qed

subsection \<open>Registration and the welcome email\<close>











subsection \<open>MFA enrolment: the window of the one-time code and the stored backup codes\<close>

lemma totp_verify_window:
  "totp_verify L secret code w now \<longleftrightarrow>
     (\<exists>i. - w \<le> i \<and> i \<le> w \<and> totp_generate L secret (now div 1000 div 30 + i) = code)"
proof -
  let ?c = "now div 1000 div 30"
  have "totp_verify L secret code w now
          \<longleftrightarrow> (\<exists>c\<in>{?c - w .. ?c + w}. totp_generate L secret c = code)"
    by (simp add: totp_verify_def Let_def list_ex_iff)
  also have "\<dots> \<longleftrightarrow> (\<exists>i. - w \<le> i \<and> i \<le> w \<and> totp_generate L secret (?c + i) = code)"
  proof
    assume "\<exists>c\<in>{?c - w .. ?c + w}. totp_generate L secret c = code"
    then obtain c where "?c - w \<le> c" "c \<le> ?c + w" "totp_generate L secret c = code" by auto
    then have "- w \<le> c - ?c \<and> c - ?c \<le> w \<and> totp_generate L secret (?c + (c - ?c)) = code"
      by simp
    then show "\<exists>i. - w \<le> i \<and> i \<le> w \<and> totp_generate L secret (?c + i) = code" by blast
  next
    assume "\<exists>i. - w \<le> i \<and> i \<le> w \<and> totp_generate L secret (?c + i) = code"
    then obtain i where "- w \<le> i" "i \<le> w" "totp_generate L secret (?c + i) = code" by blast
    then have "?c + i \<in> {?c - w .. ?c + w}" "totp_generate L secret (?c + i) = code" by simp_all
    then show "\<exists>c\<in>{?c - w .. ?c + w}. totp_generate L secret c = code" by blast
  qed
  finally show ?thesis .
qed

lemma controller_verifyMfa_verdict:
  assumes "verifyTemporaryToken cfg tempToken now = Some uid" "uid \<noteq> []"
    and "find (\<lambda>u. user_id u = uid) (users d) = Some user"
    and "user_mfaSecret user = Some enc" "enc \<noteq> []"
    and "decrypt L enc (encryption_key cfg) = Inr secret"
    and "user_backupCodes user = None"
  shows "(\<not> totp_verify L secret code 1 now \<longrightarrow>
            controller_verifyMfa L cfg now fr req tempToken code di d
              = ((401, ErrorBody ''Invalid MFA code''), d))
       \<and> (totp_verify L secret code 1 now \<longrightarrow>
            fst (fst (controller_verifyMfa L cfg now fr req tempToken code di d)) \<noteq> 401)"
  using assms
  by (auto simp: controller_verifyMfa_def truthy_Some or_else_Some check_backup_code_def Let_def
      split: sum.splits prod.splits)

lemma controller_enableMfa_verdict:
  assumes "find (\<lambda>u. user_id u = uid) (users d) = Some user"
    and "user_mfaSecret user = Some enc" "enc \<noteq> []"
    and "decrypt L enc (encryption_key cfg) = Inr secret"
  shows "controller_enableMfa L cfg now fr uid code d =
           (if totp_verify L secret code 1 now
            then ((200, MfaEnabledBody ''MFA enabled successfully'' (generateBackupCodes fr)),
                  update_user uid
                    (\<lambda>u. u\<lparr> user_mfaEnabled := True,
                             user_backupCodes := Some (generateBackupCodes fr) \<rparr>) d)
            else ((401, ErrorBody ''Invalid code''), d))"
  using assms by (simp add: controller_enableMfa_def truthy_Some or_else_Some Let_def)

lemma route_mfa_enable_verdict:
  assumes "authenticate cfg now req d = Next au"
    and "req_validationErrors req = []"
    and "find (\<lambda>u. user_id u = au_id au) (users d) = Some user"
    and "user_mfaSecret user = Some enc" "enc \<noteq> []"
    and "decrypt L enc (encryption_key cfg) = Inr secret"
  shows "route_mfa_enable L cfg now req code d =
           (if totp_verify L secret code 2 now
            then ((200, MessageBody ''MFA enabled successfully''),
                  update_user (user_id user) (\<lambda>u. u\<lparr>user_mfaEnabled := True\<rparr>) d)
            else ((401, ErrorBody ''Invalid verification code''), d))"
  using assms by (simp add: route_mfa_enable_def truthy_Some or_else_Some)

lemma example_carol_by_id:
  "find (\<lambda>u. user_id u = ''user_carol'') (users example_db) = Some carol"
  by (simp add: example_db_def alice_def bob_def carol_def)

lemma example_carol_authenticated:
  "authenticate example_cfg example_now
     (example_request\<lparr>req_authorization :=
        Some (Bearer (generateAccessToken example_cfg ''user_carol'' example_now))\<rparr>) example_db
   = Next \<lparr> au_id = ''user_carol'', au_email = ''carol@x.com'', au_subscriptionTier = ''FREE'',
            au_teamId = None, au_teamRole = None \<rparr>"
  by (simp add: authenticate_def generateAccessToken_def jwt_sign_def jwt_verify_def
      example_cfg_def example_now_def example_db_def alice_def bob_def carol_def or_null_def)

lemma example_two_steps_ahead:
  "totp_generate example_lib example_secret (example_now div 1000 div 30 + 2) = ''666668''
   \<and> \<not> totp_verify example_lib example_secret ''666668'' 1 example_now
   \<and> totp_verify example_lib example_secret ''666668'' 2 example_now"
  by (simp add: totp_verify_def example_lib_def example_now_def Let_def upto.simps
      decimal6_def hex_digit_def)

text \<open>
  C4. The one-time code is checked with a window of one step in \<open>verifyMfa\<close> and of two
  steps in the route \<open>POST /mfa/enable\<close>, but \<open>AuthController.enableMfa\<close> checks with
  a window of one step as well. Carol has set up MFA and submits the code of the time
  step two ahead of the current one: the controller rejects it with 401 \<open>Invalid code\<close>
  and changes nothing, the route accepts it.
\<close>
theorem enableMfa_controller_rejects_second_step:
  "totp_generate example_lib example_secret (example_now div 1000 div 30 + 2) = ''666668''
   \<and> controller_enableMfa example_lib example_cfg example_now example_fresh
        ''user_carol'' ''666668'' example_db
      = ((401, ErrorBody ''Invalid code''), example_db)
   \<and> fst (route_mfa_enable example_lib example_cfg example_now
            (example_request\<lparr>req_authorization :=
               Some (Bearer (generateAccessToken example_cfg ''user_carol'' example_now))\<rparr>)
            ''666668'' example_db)
      = (200, MessageBody ''MFA enabled successfully'')"
proof -
  have enc: "user_mfaSecret carol = Some example_encrypted_secret" by (simp add: carol_def)
  have valid: "req_validationErrors (example_request\<lparr>req_authorization :=
               Some (Bearer (generateAccessToken example_cfg ''user_carol'' example_now))\<rparr>) = []"
    by (simp add: example_request_def)
  have c: "controller_enableMfa example_lib example_cfg example_now example_fresh
        ''user_carol'' ''666668'' example_db
      = ((401, ErrorBody ''Invalid code''), example_db)"
    using controller_enableMfa_verdict[OF example_carol_by_id enc
        conjunct1[OF example_secret_stored] conjunct2[OF example_secret_stored],
        of example_now example_fresh "''666668''"]
      example_two_steps_ahead by simp
  have r: "fst (route_mfa_enable example_lib example_cfg example_now
            (example_request\<lparr>req_authorization :=
               Some (Bearer (generateAccessToken example_cfg ''user_carol'' example_now))\<rparr>)
            ''666668'' example_db)
      = (200, MessageBody ''MFA enabled successfully'')"
    using route_mfa_enable_verdict[OF example_carol_authenticated valid _ enc
        conjunct1[OF example_secret_stored] conjunct2[OF example_secret_stored],
        of "''666668''"]
      example_carol_by_id example_two_steps_ahead by simp
  from c r example_two_steps_ahead show ?thesis by simp
qed


lemma example_backup_codes:
  "generateBackupCodes example_fresh =
     [''00ABCDEF'', ''01ABCDEF'', ''02ABCDEF'', ''03ABCDEF'', ''04ABCDEF'',
      ''05ABCDEF'', ''06ABCDEF'', ''07ABCDEF'', ''08ABCDEF'', ''09ABCDEF'']"
  by code_simp

lemma example_current_step:
  "totp_verify example_lib example_secret ''666666'' 1 example_now"
  by (simp add: totp_verify_def example_lib_def example_now_def Let_def upto.simps
      decimal6_def hex_digit_def)

lemma route_mfa_setup_stores:
  assumes "authenticate cfg now req d = Next au"
    and "find (\<lambda>u. user_id u = au_id au) (users d) = Some user"
  shows "users (snd (route_mfa_setup L cfg now fr req d)) =
           map (\<lambda>u. if user_id u = user_id user
                     then u\<lparr> user_mfaSecret :=
                               Some (encrypt L (fresh_secret fr) (encryption_key cfg)
                                       (fresh_iv fr 0) (fresh_encSalt fr 0)),
                             user_backupCodes :=
                               Some (map (\<lambda>(i, code). encrypt L code (encryption_key cfg)
                                           (fresh_iv fr (i + 1)) (fresh_encSalt fr (i + 1)))
                                      (enumerate 0 (generateBackupCodes fr))) \<rparr>
                     else u) (users d)"
  using assms by (simp add: route_mfa_setup_def Let_def update_user_users)

text \<open>
  C6. \<open>AuthController.enableMfa\<close> stores the backup codes as they are. Carol enables MFA
  with the current one-time code: the ten codes returned to her are stored on her row
  in plain text (the stored text \<open>00ABCDEF\<close> is not a blob of the encryptor), whereas the
  route \<open>POST /mfa/setup\<close> stores each code encrypted.
\<close>
theorem enableMfa_controller_stores_plain_codes:
  "fst (controller_enableMfa example_lib example_cfg example_now example_fresh
          ''user_carol'' ''666666'' example_db)
     = (200, MfaEnabledBody ''MFA enabled successfully''
               [''00ABCDEF'', ''01ABCDEF'', ''02ABCDEF'', ''03ABCDEF'', ''04ABCDEF'',
                ''05ABCDEF'', ''06ABCDEF'', ''07ABCDEF'', ''08ABCDEF'', ''09ABCDEF''])
   \<and> map user_backupCodes
        (users (snd (controller_enableMfa example_lib example_cfg example_now example_fresh
                       ''user_carol'' ''666666'' example_db)))
     = [Some [''A1B2C3D4'', ''0F9E8D7C'', ''DEADBEEF''], None,
        Some [''00ABCDEF'', ''01ABCDEF'', ''02ABCDEF'', ''03ABCDEF'', ''04ABCDEF'',
              ''05ABCDEF'', ''06ABCDEF'', ''07ABCDEF'', ''08ABCDEF'', ''09ABCDEF'']]
   \<and> decrypt example_lib ''00ABCDEF'' (encryption_key example_cfg)
     = Inl InvalidEncryptedDataFormat
   \<and> map_option hd
        (user_backupCodes
           (last (users (snd (route_mfa_setup example_lib example_cfg example_now example_fresh
              (example_request\<lparr>req_authorization :=
                 Some (Bearer (generateAccessToken example_cfg ''user_carol'' example_now))\<rparr>)
              example_db)))))
     = Some (encrypt example_lib ''00ABCDEF'' (encryption_key example_cfg)
               (replicate 16 1) (replicate 64 1))"
proof -
  have enc: "user_mfaSecret carol = Some example_encrypted_secret" by (simp add: carol_def)
  have c: "controller_enableMfa example_lib example_cfg example_now example_fresh
             ''user_carol'' ''666666'' example_db
           = ((200, MfaEnabledBody ''MFA enabled successfully''
                      (generateBackupCodes example_fresh)),
              update_user ''user_carol''
                (\<lambda>u. u\<lparr> user_mfaEnabled := True,
                         user_backupCodes := Some (generateBackupCodes example_fresh) \<rparr>)
                example_db)"
    using controller_enableMfa_verdict[OF example_carol_by_id enc
        conjunct1[OF example_secret_stored] conjunct2[OF example_secret_stored],
        of example_now example_fresh "''666666''"]
      example_current_step by simp
  have stored: "map user_backupCodes
        (users (snd (controller_enableMfa example_lib example_cfg example_now example_fresh
                       ''user_carol'' ''666666'' example_db)))
     = [Some [''A1B2C3D4'', ''0F9E8D7C'', ''DEADBEEF''], None,
        Some (generateBackupCodes example_fresh)]"
    unfolding c by (simp add: update_user_users example_db_def alice_def bob_def carol_def)
  have plain: "decrypt example_lib ''00ABCDEF'' (encryption_key example_cfg)
                 = Inl InvalidEncryptedDataFormat"
    by (simp add: decrypt_def)
  have r: "map_option hd
        (user_backupCodes
           (last (users (snd (route_mfa_setup example_lib example_cfg example_now example_fresh
              (example_request\<lparr>req_authorization :=
                 Some (Bearer (generateAccessToken example_cfg ''user_carol'' example_now))\<rparr>)
              example_db)))))
     = Some (encrypt example_lib ''00ABCDEF'' (encryption_key example_cfg)
               (replicate 16 1) (replicate 64 1))"
    unfolding route_mfa_setup_stores[OF example_carol_authenticated, of carol, simplified,
        OF example_carol_by_id]
    by (simp add: example_db_def alice_def bob_def carol_def example_backup_codes)
       (simp add: example_fresh_def)
  from c stored plain r show ?thesis by (simp add: example_backup_codes)
qed

end
